theory Spec2Isabelle
  imports Main "HOL-Library.Sublist"
begin

section \<open>Python values and exceptions\<close>

text \<open>
  The values that \<^verbatim>\<open>json.loads\<close>, \<^verbatim>\<open>request.get_json\<close> and python-jose hand to the
  program: \<^verbatim>\<open>None\<close>, booleans, integers, strings, lists and dicts with string keys. A
  dict is an association list in insertion order with distinct keys, read with
  \<open>map_of\<close>. Floating point numbers are left out.
\<close>

datatype json =
    JNull
  | JBool bool
  | JNum int
  | JStr string
  | JArr "json list"
  | JObj "(string \<times> json) list"

type_synonym pydict = "(string \<times> json) list"

text \<open>
  \<^verbatim>\<open>class AuthError(Exception)\<close> carries \<^verbatim>\<open>error\<close>, always built in this program as
  a dict with the two keys \<^verbatim>\<open>code\<close> and \<^verbatim>\<open>description\<close>, and \<^verbatim>\<open>status_code\<close>.
\<close>

record error_dict =
  code :: string
  description :: string

record AuthError =
  error :: error_dict
  status_code :: int

text \<open>
  Every exception the program raises or lets through. \<open>Raise_AuthError\<close> is the
  program's own; \<open>KeyError\<close>, \<open>TypeError\<close> and \<open>AttributeError\<close> are raised by Python's
  subscripts, iteration and attribute lookup; \<open>ExpiredSignatureError\<close>, \<open>JWTClaimsError\<close>
  and \<open>JWTError\<close> are python-jose's; \<open>HTTPException c d\<close> is what \<^verbatim>\<open>abort(c, d)\<close>
  raises (werkzeug's exception for status \<open>c\<close> with description \<open>d\<close>) and
  \<open>HTTPResponse c b\<close> what \<^verbatim>\<open>abort(Response(status=c, response=b))\<close> raises;
  \<open>OtherException\<close> is any other subclass of \<^verbatim>\<open>Exception\<close> raised by a collaborator.
\<close>

datatype exc =
    Raise_AuthError AuthError
  | KeyError
  | TypeError
  | AttributeError
  | ExpiredSignatureError
  | JWTClaimsError
  | JWTError
  | OtherException string
  | HTTPException int "AuthError option"
  | HTTPResponse int string

type_synonym 'a result = "exc + 'a"

text \<open>Truth value of a Python object, as \<^verbatim>\<open>if x\<close>, \<^verbatim>\<open>not x\<close> and \<^verbatim>\<open>x or y\<close> test it.\<close>

fun truthy :: "json \<Rightarrow> bool" where
  "truthy JNull = False"
| "truthy (JBool b) = b"
| "truthy (JNum n) = (n \<noteq> 0)"
| "truthy (JStr s) = (s \<noteq> [])"
| "truthy (JArr xs) = (xs \<noteq> [])"
| "truthy (JObj kvs) = (kvs \<noteq> [])"

text \<open>\<^verbatim>\<open>x[k]\<close> with a string \<open>k\<close>: a dict looks the key up, everything else refuses.\<close>

fun getitem :: "json \<Rightarrow> string \<Rightarrow> json result" where
  "getitem (JObj kvs) k = (case map_of kvs k of None \<Rightarrow> Inl KeyError | Some v \<Rightarrow> Inr v)"
| "getitem _ k = Inl TypeError"

text \<open>\<^verbatim>\<open>x.get(k)\<close>: only a dict has the method; a missing key gives \<^verbatim>\<open>None\<close>.\<close>

fun get :: "json \<Rightarrow> string \<Rightarrow> json result" where
  "get (JObj kvs) k = (case map_of kvs k of None \<Rightarrow> Inr JNull | Some v \<Rightarrow> Inr v)"
| "get _ k = Inl AttributeError"

text \<open>
  \<^verbatim>\<open>for x in v\<close>: the elements of a list, the keys of a dict, the characters of a
  string; nothing else is iterable.
\<close>

fun iter :: "json \<Rightarrow> json list result" where
  "iter (JArr xs) = Inr xs"
| "iter (JObj kvs) = Inr (map (\<lambda>kv. JStr (fst kv)) kvs)"
| "iter (JStr s) = Inr (map (\<lambda>c. JStr [c]) s)"
| "iter _ = Inl TypeError"

text \<open>
  \<^verbatim>\<open>s in v\<close> for a string \<open>s\<close>: an element of a list, a key of a dict, a substring of
  a string; \<^verbatim>\<open>TypeError\<close> on anything else.
\<close>

fun contains :: "json \<Rightarrow> string \<Rightarrow> bool result" where
  "contains (JArr xs) s = Inr (JStr s \<in> set xs)"
| "contains (JObj kvs) s = Inr (s \<in> fst ` set kvs)"
| "contains (JStr t) s = Inr (sublist s t)"
| "contains _ s = Inl TypeError"

text \<open>
  \<^verbatim>\<open>x == y\<close>: \<^verbatim>\<open>bool\<close> is a subclass of \<^verbatim>\<open>int\<close>, so \<^verbatim>\<open>True == 1\<close> and
  \<^verbatim>\<open>False == 0\<close>; lists are equal when they have the same length and equal elements
  in order; dicts are equal when they have the same keys with equal values, in any
  order; values of different kinds are otherwise unequal.
\<close>

fun py_eq :: "json \<Rightarrow> json \<Rightarrow> bool"
  and py_eq_list :: "json list \<Rightarrow> json list \<Rightarrow> bool"
  and py_eq_items :: "(string \<times> json) list \<Rightarrow> (string \<times> json) list \<Rightarrow> bool" where
  "py_eq JNull y = (y = JNull)"
| "py_eq (JBool a) y =
     (case y of JBool b \<Rightarrow> a = b | JNum n \<Rightarrow> n = (if a then 1 else 0) | _ \<Rightarrow> False)"
| "py_eq (JNum m) y =
     (case y of JNum n \<Rightarrow> m = n | JBool b \<Rightarrow> m = (if b then 1 else 0) | _ \<Rightarrow> False)"
| "py_eq (JStr s) y = (y = JStr s)"
| "py_eq (JArr xs) y = (case y of JArr ys \<Rightarrow> py_eq_list xs ys | _ \<Rightarrow> False)"
| "py_eq (JObj kvs) y =
     (case y of JObj kvs' \<Rightarrow> length kvs = length kvs' \<and> py_eq_items kvs kvs' | _ \<Rightarrow> False)"
| "py_eq_list [] ys = (ys = [])"
| "py_eq_list (x # xs) ys =
     (case ys of [] \<Rightarrow> False | y # ys' \<Rightarrow> py_eq x y \<and> py_eq_list xs ys')"
| "py_eq_items [] d = True"
| "py_eq_items ((k, v) # kvs) d =
     ((case map_of d k of None \<Rightarrow> False | Some v' \<Rightarrow> py_eq v v') \<and> py_eq_items kvs d)"

section \<open>auth.py\<close>

subsection \<open>Strings\<close>

text \<open>
  \<^verbatim>\<open>str.split(" ")\<close>: cuts at every single space and keeps empty pieces, so the result
  always has one more piece than the string has spaces.
\<close>

fun split_space :: "string \<Rightarrow> string list" where
  "split_space [] = [[]]"
| "split_space (c # cs) =
     (if c = CHR '' '' then [] # split_space cs
      else (case split_space cs of p # ps \<Rightarrow> (c # p) # ps | [] \<Rightarrow> [[c]]))"

text \<open>
  \<^verbatim>\<open>str.lower()\<close> on the code points a header value can hold (WSGI decodes headers as
  Latin-1, one \<open>char\<close> per code point): the upper-case letters are A to Z and
  U+00C0 to U+00DE without the multiplication sign U+00D7, each 32 below its lower-case
  form.
\<close>

definition lower_char :: "char \<Rightarrow> char" where
  "lower_char c =
     (let n = (of_char c :: nat)
      in if (65 \<le> n \<and> n \<le> 90) \<or> (192 \<le> n \<and> n \<le> 222 \<and> n \<noteq> 215)
         then char_of (n + 32) else c)"

definition lower :: "string \<Rightarrow> string" where
  "lower s = map lower_char s"

text \<open>\<^verbatim>\<open>" ".join(pieces)\<close>, the inverse of the split.\<close>

fun join_space :: "string list \<Rightarrow> string" where
  "join_space [] = []"
| "join_space [p] = p"
| "join_space (p # q # ps) = p @ CHR '' '' # join_space (q # ps)"

subsection \<open>get_token_auth_header\<close>

definition unauthorized :: AuthError where
  "unauthorized =
     \<lparr>error = \<lparr>code = ''unauthorized'', description = ''Unauthorized''\<rparr>, status_code = 401\<rparr>"

text \<open>
  \<^verbatim>\<open>request.headers\<close> is the argument: a mapping from header name to value (the
  framework finds the name regardless of case).
\<close>

definition get_token_auth_header :: "(string \<rightharpoonup> string) \<Rightarrow> string result" where
  "get_token_auth_header headers =
     (case headers ''Authorization'' of
        None \<Rightarrow> Inl (Raise_AuthError unauthorized)
      | Some auth_header \<Rightarrow>
          (let pieces = split_space auth_header
           in if length pieces \<noteq> 2 then Inl (Raise_AuthError unauthorized)
              else if lower (pieces ! 0) \<noteq> ''bearer'' then Inl (Raise_AuthError unauthorized)
              else Inr (pieces ! 1)))"

subsection \<open>check_permissions\<close>

definition forbidden :: AuthError where
  "forbidden =
     \<lparr>error = \<lparr>code = ''forbidden'', description = ''Forbidden''\<rparr>, status_code = 403\<rparr>"

definition check_permissions :: "string \<Rightarrow> pydict \<Rightarrow> bool result" where
  "check_permissions permission payload =
     (case map_of payload ''permissions'' of
        None \<Rightarrow> Inl (Raise_AuthError forbidden)
      | Some perms \<Rightarrow>
          (case contains perms permission of
             Inl e \<Rightarrow> Inl e
           | Inr True \<Rightarrow> Inr True
           | Inr False \<Rightarrow> Inl (Raise_AuthError forbidden)))"

subsection \<open>verify_decode_jwt\<close>

text \<open>
  The module's configuration, read from the environment when it is loaded:
  \<^verbatim>\<open>os.getenv\<close> gives \<^verbatim>\<open>None\<close> for a variable that is not set.
\<close>

record config =
  AUTH0_DOMAIN :: "string option"
  ALGORITHMS :: "string option list"
  API_AUDIENCE :: "string option"

text \<open>
  The collaborators of one request: \<open>fetch_jwks url\<close> is
  \<^verbatim>\<open>json.loads(urlopen(url).read())\<close>, \<open>get_unverified_header\<close> and \<open>decode\<close> are
  python-jose's \<^verbatim>\<open>jwt.get_unverified_header\<close> and \<^verbatim>\<open>jwt.decode\<close>. Each returns a
  value or raises. They are parameters: every theorem holds for whatever they do.
\<close>

record collaborators =
  fetch_jwks :: "string \<Rightarrow> json result"
  get_unverified_header :: "string \<Rightarrow> pydict result"
  decode :: "string \<Rightarrow> pydict \<Rightarrow> string option list \<Rightarrow> string option \<Rightarrow> string \<Rightarrow> pydict result"

text \<open>
  What a request does, in the order it does it: the calls the wrapper makes and the
  calls \<^verbatim>\<open>verify_decode_jwt\<close> makes to its collaborators.
\<close>

datatype event =
    Call_get_token_auth_header
  | Call_verify_decode_jwt string
  | Call_urlopen string
  | Call_get_unverified_header string
  | Call_decode string pydict
  | Call_check_permissions string pydict
  | Call_f

text \<open>\<^verbatim>\<open>f"{x}"\<close> of a configuration value: \<^verbatim>\<open>None\<close> prints as the word.\<close>

definition format_str :: "string option \<Rightarrow> string" where
  "format_str x = (case x of None \<Rightarrow> ''None'' | Some s \<Rightarrow> s)"

definition missing_kid :: AuthError where
  "missing_kid =
     \<lparr>error = \<lparr>code = ''invalid_header'', description = ''Authorization malformed.''\<rparr>,
      status_code = 401\<rparr>"

definition token_expired :: AuthError where
  "token_expired =
     \<lparr>error = \<lparr>code = ''token_expired'', description = ''Token expired.''\<rparr>,
      status_code = 401\<rparr>"

definition invalid_claims :: AuthError where
  "invalid_claims =
     \<lparr>error = \<lparr>code = ''invalid_claims'',
        description = ''Incorrect claims. Please, check the audience and issuer.''\<rparr>,
      status_code = 403\<rparr>"

definition unable_to_parse :: AuthError where
  "unable_to_parse =
     \<lparr>error = \<lparr>code = ''invalid_header'',
        description = ''Unable to parse authentication token.''\<rparr>,
      status_code = 403\<rparr>"

definition key_not_found :: AuthError where
  "key_not_found =
     \<lparr>error = \<lparr>code = ''invalid_header'',
        description = ''Unable to find the appropriate key.''\<rparr>,
      status_code = 403\<rparr>"

text \<open>
  The dict built at lines 112 to 118: the five subscripts are evaluated in the order
  written, and the first one that fails raises.
\<close>

definition make_rsa_key :: "json \<Rightarrow> pydict result" where
  "make_rsa_key key =
     (case getitem key ''kty'' of
        Inl x \<Rightarrow> Inl x
      | Inr kty \<Rightarrow>
     (case getitem key ''kid'' of
        Inl x \<Rightarrow> Inl x
      | Inr kid \<Rightarrow>
     (case getitem key ''use'' of
        Inl x \<Rightarrow> Inl x
      | Inr use \<Rightarrow>
     (case getitem key ''n'' of
        Inl x \<Rightarrow> Inl x
      | Inr n \<Rightarrow>
     (case getitem key ''e'' of
        Inl x \<Rightarrow> Inl x
      | Inr e \<Rightarrow>
          Inr [(''kty'', kty), (''kid'', kid), (''use'', use), (''n'', n), (''e'', e)])))))"

text \<open>
  The loop of lines 110 to 118 over the remaining keys, \<open>rsa_key\<close> being the variable
  it assigns and \<open>kid\<close> the value of \<^verbatim>\<open>unverified_header["kid"]\<close>. There is no
  \<^verbatim>\<open>break\<close>: every key's \<^verbatim>\<open>kid\<close> is read, and a later match replaces an earlier
  one.
\<close>

fun find_rsa_key :: "json list \<Rightarrow> json \<Rightarrow> pydict \<Rightarrow> pydict result" where
  "find_rsa_key [] kid rsa_key = Inr rsa_key"
| "find_rsa_key (key # keys) kid rsa_key =
     (case getitem key ''kid'' of
        Inl e \<Rightarrow> Inl e
      | Inr k \<Rightarrow>
          if py_eq k kid
          then (case make_rsa_key key of
                  Inl e \<Rightarrow> Inl e
                | Inr rsa_key' \<Rightarrow> find_rsa_key keys kid rsa_key')
          else find_rsa_key keys kid rsa_key)"

text \<open>
  Lines 120 to 152: the \<^verbatim>\<open>try\<close> around \<^verbatim>\<open>jwt.decode\<close>. The issuer argument
  \<^verbatim>\<open>"https://" + AUTH0_DOMAIN + "/"\<close> is evaluated inside the \<^verbatim>\<open>try\<close>, so the
  \<^verbatim>\<open>TypeError\<close> of an unset domain is caught by \<^verbatim>\<open>except Exception\<close> before
  \<^verbatim>\<open>jwt.decode\<close> is called.
\<close>

definition decode_with_key ::
  "config \<Rightarrow> collaborators \<Rightarrow> string \<Rightarrow> pydict \<Rightarrow> pydict result \<times> event list" where
  "decode_with_key cfg lib token rsa_key =
     (case AUTH0_DOMAIN cfg of
        None \<Rightarrow> (Inl (Raise_AuthError unable_to_parse), [])
      | Some domain \<Rightarrow>
          ((case decode lib token rsa_key (ALGORITHMS cfg) (API_AUDIENCE cfg)
                   (''https://'' @ domain @ ''/'') of
              Inr payload \<Rightarrow> Inr payload
            | Inl ExpiredSignatureError \<Rightarrow> Inl (Raise_AuthError token_expired)
            | Inl JWTClaimsError \<Rightarrow> Inl (Raise_AuthError invalid_claims)
            | Inl _ \<Rightarrow> Inl (Raise_AuthError unable_to_parse)),
           [Call_decode token rsa_key]))"

definition verify_decode_jwt ::
  "config \<Rightarrow> collaborators \<Rightarrow> string \<Rightarrow> pydict result \<times> event list" where
  "verify_decode_jwt cfg lib token =
     (let url = ''https://'' @ format_str (AUTH0_DOMAIN cfg) @ ''/.well-known/jwks.json''
      in case fetch_jwks lib url of
           Inl e \<Rightarrow> (Inl e, [Call_urlopen url])
         | Inr jwks \<Rightarrow>
             (case get_unverified_header lib token of
                Inl e \<Rightarrow> (Inl e, [Call_urlopen url, Call_get_unverified_header token])
              | Inr unverified_header \<Rightarrow>
                  (case map_of unverified_header ''kid'' of
                     None \<Rightarrow>
                       (Inl (Raise_AuthError missing_kid),
                        [Call_urlopen url, Call_get_unverified_header token])
                   | Some kid \<Rightarrow>
                       (case (case getitem jwks ''keys'' of
                                Inl e \<Rightarrow> Inl e
                              | Inr ks \<Rightarrow>
                                  (case iter ks of
                                     Inl e \<Rightarrow> Inl e
                                   | Inr keys \<Rightarrow> find_rsa_key keys kid [])) of
                          Inl e \<Rightarrow> (Inl e, [Call_urlopen url, Call_get_unverified_header token])
                        | Inr rsa_key \<Rightarrow>
                            if rsa_key \<noteq> []
                            then (let (r, evs) = decode_with_key cfg lib token rsa_key
                                  in (r, [Call_urlopen url, Call_get_unverified_header token] @ evs))
                            else (Inl (Raise_AuthError key_not_found),
                                  [Call_urlopen url, Call_get_unverified_header token])))))"

subsection \<open>requires_auth\<close>

text \<open>
  \<^verbatim>\<open>abort(e.status_code, e)\<close>: werkzeug raises its exception for the status code with
  \<open>e\<close> as the description. (A code that names no HTTP error would raise
  \<^verbatim>\<open>LookupError\<close>; the program aborts with 400, 401, 403 and 404 only.)
\<close>

definition abort :: "int \<Rightarrow> AuthError option \<Rightarrow> exc" where
  "abort c d = HTTPException c d"

text \<open>\<^verbatim>\<open>except AuthError as e: abort(e.status_code, e)\<close>; anything else passes.\<close>

definition except_AuthError :: "'r result \<Rightarrow> 'r result" where
  "except_AuthError r =
     (case r of
        Inl (Raise_AuthError e) \<Rightarrow> Inl (abort (status_code e) (Some e))
      | _ \<Rightarrow> r)"

text \<open>
  The wrapper that \<^verbatim>\<open>requires_auth(permission)(f)\<close> returns, called on \<open>args\<close> (the
  \<^verbatim>\<open>*args, **kwargs\<close> of the call) in a request with the given headers. The whole
  body, the call of \<open>f\<close> included, stands inside the \<^verbatim>\<open>try\<close>.
\<close>

definition requires_auth ::
  "string \<Rightarrow> ('a \<Rightarrow> 'r result) \<Rightarrow> config \<Rightarrow> collaborators \<Rightarrow> (string \<rightharpoonup> string) \<Rightarrow> 'a
     \<Rightarrow> 'r result \<times> event list" where
  "requires_auth permission f cfg lib headers args =
     (case get_token_auth_header headers of
        Inl e \<Rightarrow> (except_AuthError (Inl e), [Call_get_token_auth_header])
      | Inr token \<Rightarrow>
          (case verify_decode_jwt cfg lib token of
             (Inl e, evs) \<Rightarrow>
               (except_AuthError (Inl e),
                [Call_get_token_auth_header, Call_verify_decode_jwt token] @ evs)
           | (Inr payload, evs) \<Rightarrow>
               (case check_permissions permission payload of
                  Inl e \<Rightarrow>
                    (except_AuthError (Inl e),
                     [Call_get_token_auth_header, Call_verify_decode_jwt token] @ evs
                       @ [Call_check_permissions permission payload])
                | Inr _ \<Rightarrow>
                    (except_AuthError (f args),
                     [Call_get_token_auth_header, Call_verify_decode_jwt token] @ evs
                       @ [Call_check_permissions permission payload, Call_f]))))"

section \<open>api.py\<close>

subsection \<open>Error handlers\<close>

text \<open>
  A response is the dict given to \<^verbatim>\<open>jsonify\<close> and the status. \<^verbatim>\<open>handle_error\<close> tests
  \<^verbatim>\<open>isinstance(err, AuthError)\<close>: of all exceptions only \<open>Raise_AuthError\<close> is one.
\<close>

type_synonym response = "pydict \<times> int"

definition handle_error :: "exc \<Rightarrow> int \<Rightarrow> string \<Rightarrow> response" where
  "handle_error err status default_message =
     (case err of
        Raise_AuthError e \<Rightarrow>
          ([(''success'', JBool False), (''error'', JNum (status_code e)),
            (''message'', JStr (description (error e)))],
           status_code e)
      | _ \<Rightarrow>
          ([(''success'', JBool False), (''error'', JNum status),
            (''message'', JStr default_message)],
           status))"

definition handle_400 :: "exc \<Rightarrow> response" where
  "handle_400 err = handle_error err 400 ''Bad Request''"

definition handle_401 :: "exc \<Rightarrow> response" where
  "handle_401 err = handle_error err 401 ''Unauthorized''"

definition handle_403 :: "exc \<Rightarrow> response" where
  "handle_403 err = handle_error err 403 ''Forbidden''"

definition handle_404 :: "exc \<Rightarrow> response" where
  "handle_404 err = handle_error err 404 ''Not Found''"

definition handle_405 :: "exc \<Rightarrow> response" where
  "handle_405 err = handle_error err 405 ''Method Not Allowed''"

text \<open>
  The source names the handlers of 415 and 422 both \<^verbatim>\<open>unprocessable\<close>; each is
  registered by its decorator before the name is bound again.
\<close>

definition unprocessable_415 :: "exc \<Rightarrow> response" where
  "unprocessable_415 err = handle_error err 415 ''Unsupported Media Type''"

definition unprocessable_422 :: "exc \<Rightarrow> response" where
  "unprocessable_422 err = handle_error err 422 ''Unprocessable Content''"

definition handle_500 :: "exc \<Rightarrow> response" where
  "handle_500 err = handle_error err 500 ''Internal Server Error''"

text \<open>
  The registrations \<^verbatim>\<open>@app.errorhandler(code)\<close> of the module. No handler is
  registered for the class \<^verbatim>\<open>AuthError\<close>.
\<close>

definition errorhandler :: "int \<Rightarrow> (exc \<Rightarrow> response) option" where
  "errorhandler c =
     (if c = 400 then Some handle_400
      else if c = 401 then Some handle_401
      else if c = 403 then Some handle_403
      else if c = 404 then Some handle_404
      else if c = 405 then Some handle_405
      else if c = 415 then Some unprocessable_415
      else if c = 422 then Some unprocessable_422
      else if c = 500 then Some handle_500
      else None)"

text \<open>
  How Flask answers an exception that leaves a view: an \<open>HTTPException\<close> goes to the
  handler registered for its status code, which receives that exception; any other
  exception, having no handler of its class, becomes werkzeug's
  \<^verbatim>\<open>InternalServerError\<close> and goes to the handler of 500. \<open>None\<close> stands for a response
  that none of the module's handlers builds (the response passed to \<^verbatim>\<open>abort\<close>, or
  werkzeug's own page for a code without handler).
\<close>

definition handle_user_exception :: "exc \<Rightarrow> response option" where
  "handle_user_exception e =
     (case e of
        HTTPException c d \<Rightarrow> (case errorhandler c of Some h \<Rightarrow> Some (h e) | None \<Rightarrow> None)
      | HTTPResponse c b \<Rightarrow> None
      | _ \<Rightarrow> Some (handle_500 (HTTPException 500 None)))"

subsection \<open>update_drink\<close>

text \<open>
  A \<^verbatim>\<open>Drink\<close> object as the view uses it: its \<^verbatim>\<open>id\<close>, \<^verbatim>\<open>title\<close> and \<^verbatim>\<open>recipe\<close>
  attributes. A row read from the table holds a string in \<^verbatim>\<open>title\<close>; the view may
  assign any truthy value of the request body to it.
\<close>

record Drink =
  drink_id :: int
  title :: json
  recipe :: string

text \<open>
  The persistence layer and the request, as the view calls them:
  \<open>title_one_or_none v\<close> is \<^verbatim>\<open>Drink.query.filter(Drink.title == v).one_or_none()\<close>,
  \<open>id_first i\<close> is \<^verbatim>\<open>Drink.query.filter(Drink.id == i).first()\<close>,
  \<open>update d\<close> is \<^verbatim>\<open>d.update()\<close> (\<open>Some\<close> the exception it raises), \<open>long d\<close> is
  \<^verbatim>\<open>d.long()\<close>, \<open>get_json\<close> is \<^verbatim>\<open>request.get_json()\<close> and \<open>dumps\<close> is \<^verbatim>\<open>json.dumps\<close>.
\<close>

record persistence =
  title_one_or_none :: "json \<Rightarrow> Drink option result"
  id_first :: "int \<Rightarrow> Drink option"
  update :: "Drink \<Rightarrow> exc option"
  long :: "Drink \<Rightarrow> json"
  get_json :: "json result"
  dumps :: "json \<Rightarrow> string"

fun is_str :: "json \<Rightarrow> bool" where
  "is_str (JStr s) = True"
| "is_str _ = False"

fun is_list :: "json \<Rightarrow> bool" where
  "is_list (JArr xs) = True"
| "is_list _ = False"

text \<open>Lines 130 to 133: the condition under \<^verbatim>\<open>not\<close>, with Python's short circuits.\<close>

definition body_ok :: "json \<Rightarrow> bool result" where
  "body_ok body =
     (if \<not> truthy body then Inr False
      else (case get body ''title'' of
              Inl e \<Rightarrow> Inl e
            | Inr t \<Rightarrow>
                if is_str t then Inr True
                else (case get body ''recipe'' of
                        Inl e \<Rightarrow> Inl e
                      | Inr r \<Rightarrow> Inr (is_list r))))"

text \<open>Lines 136 to 142: the loop over the ingredients.\<close>

fun check_ingredients :: "json list \<Rightarrow> unit result" where
  "check_ingredients [] = Inr ()"
| "check_ingredients (ingredient # rest) =
     (case get ingredient ''name'' of
        Inl e \<Rightarrow> Inl e
      | Inr name \<Rightarrow>
          if \<not> truthy name then Inl (abort 400 None)
          else (case get ingredient ''color'' of
                  Inl e \<Rightarrow> Inl e
                | Inr color \<Rightarrow>
                    if \<not> truthy color then Inl (abort 400 None)
                    else (case get ingredient ''parts'' of
                            Inl e \<Rightarrow> Inl e
                          | Inr parts \<Rightarrow>
                              if \<not> truthy parts then Inl (abort 400 None)
                              else check_ingredients rest)))"

text \<open>Lines 135 to 142.\<close>

definition check_recipe :: "json \<Rightarrow> unit result" where
  "check_recipe body =
     (case get body ''recipe'' of
        Inl e \<Rightarrow> Inl e
      | Inr r \<Rightarrow>
          if truthy r
          then (case iter r of Inl e \<Rightarrow> Inl e | Inr ingredients \<Rightarrow> check_ingredients ingredients)
          else Inr ())"

text \<open>Lines 143 to 148.\<close>

definition check_title :: "persistence \<Rightarrow> json \<Rightarrow> unit result" where
  "check_title db body =
     (case get body ''title'' of
        Inl e \<Rightarrow> Inl e
      | Inr t \<Rightarrow>
          if truthy t
          then (case title_one_or_none db t of
                  Inl e \<Rightarrow> Inl e
                | Inr (Some existing_drink) \<Rightarrow>
                    Inl (HTTPResponse 400 ''drink titles must be unique'')
                | Inr None \<Rightarrow> Inr ())
          else Inr ())"

text \<open>
  Lines 149 to 153, once the body has passed the checks: \<^verbatim>\<open>first_or_404\<close>, the two
  assignments with \<^verbatim>\<open>or\<close>, \<^verbatim>\<open>drink.update()\<close> and the response. The result holds the
  drink as it is handed to \<^verbatim>\<open>update\<close>.
\<close>

definition assign_and_update :: "persistence \<Rightarrow> json \<Rightarrow> int \<Rightarrow> (Drink \<times> response) result" where
  "assign_and_update db body i =
     (case id_first db i of
        None \<Rightarrow> Inl (abort 404 None)
      | Some drink \<Rightarrow>
          (case get body ''title'' of
             Inl e \<Rightarrow> Inl e
           | Inr t \<Rightarrow>
               (case get body ''recipe'' of
                  Inl e \<Rightarrow> Inl e
                | Inr r \<Rightarrow>
                    (let drink' = drink\<lparr>title := (if truthy t then t else title drink)\<rparr>;
                         dumped = dumps db r;
                         drink'' = drink'\<lparr>recipe := (if dumped \<noteq> [] then dumped else recipe drink')\<rparr>
                     in case update db drink'' of
                          Some e \<Rightarrow> Inl e
                        | None \<Rightarrow>
                            Inr (drink'',
                                 ([(''success'', JBool True), (''drinks'', JArr [long db drink''])],
                                  200))))))"

text \<open>
  The view itself; the route is \<open>requires_auth ''patch:drinks''\<close> applied to it.
  \<^verbatim>\<open>isinstance(id, int)\<close> holds of every \<open>i\<close>: the route converter passes integers
  only.
\<close>

definition update_drink :: "persistence \<Rightarrow> int \<Rightarrow> (Drink \<times> response) result" where
  "update_drink db i =
     (case get_json db of
        Inl e \<Rightarrow> Inl e
      | Inr body \<Rightarrow>
          (case body_ok body of
             Inl e \<Rightarrow> Inl e
           | Inr False \<Rightarrow> Inl (abort 400 None)
           | Inr True \<Rightarrow>
               (case check_recipe body of
                  Inl e \<Rightarrow> Inl e
                | Inr _ \<Rightarrow>
                    (case check_title db body of
                       Inl e \<Rightarrow> Inl e
                     | Inr _ \<Rightarrow> assign_and_update db body i))))"

section \<open>Vocabulary of the specification\<close>

text \<open>
  The stages of the specification, and the stage each call belongs to: fetching the key
  set and reading the token's header are key resolution, the call of \<^verbatim>\<open>jwt.decode\<close>
  is verification. The wrapper's call of \<^verbatim>\<open>verify_decode_jwt\<close> is no stage of its own:
  that function holds both.
\<close>

datatype stage = Extraction | Key_resolution | Verification | Permission_check | Operation

fun stage_of :: "event \<Rightarrow> stage option" where
  "stage_of Call_get_token_auth_header = Some Extraction"
| "stage_of (Call_verify_decode_jwt token) = None"
| "stage_of (Call_urlopen url) = Some Key_resolution"
| "stage_of (Call_get_unverified_header token) = Some Key_resolution"
| "stage_of (Call_decode token rsa_key) = Some Verification"
| "stage_of (Call_check_permissions permission payload) = Some Permission_check"
| "stage_of Call_f = Some Operation"

definition stages_of :: "event list \<Rightarrow> stage list" where
  "stages_of evs = remdups_adj (List.map_filter stage_of evs)"

definition stages :: "stage list" where
  "stages = [Extraction, Key_resolution, Verification, Permission_check, Operation]"

text \<open>
  A key descriptor whose \<^verbatim>\<open>kid\<close> equals the token's: it has the entry, and Python's
  \<^verbatim>\<open>==\<close> holds of it and the token's \<^verbatim>\<open>kid\<close>.
\<close>

definition kid_matches :: "json \<Rightarrow> json \<Rightarrow> bool" where
  "kid_matches kid key = (case getitem key ''kid'' of Inl e \<Rightarrow> False | Inr k \<Rightarrow> py_eq k kid)"


section \<open>Sample data\<close>

text \<open>Concrete inputs, for the instances and examples below.\<close>

definition sample_config :: config where
  "sample_config =
     \<lparr>AUTH0_DOMAIN = Some ''tenant.example'', ALGORITHMS = [Some ''RS256''],
      API_AUDIENCE = Some ''drinks''\<rparr>"

definition key_K1 :: json where
  "key_K1 =
     JObj [(''alg'', JStr ''RS256''), (''kty'', JStr ''RSA''), (''use'', JStr ''sig''),
           (''n'', JStr ''modulus-1''), (''e'', JStr ''AQAB''), (''kid'', JStr ''K1'')]"

definition key_K2 :: json where
  "key_K2 =
     JObj [(''alg'', JStr ''RS256''), (''kty'', JStr ''RSA''), (''use'', JStr ''sig''),
           (''n'', JStr ''modulus-2''), (''e'', JStr ''AQAB''), (''kid'', JStr ''K2'')]"

text \<open>The key of \<open>key_K1\<close>'s identifier after a rotation: same \<^verbatim>\<open>kid\<close>, new modulus.\<close>

definition key_K1_rotated :: json where
  "key_K1_rotated =
     JObj [(''alg'', JStr ''RS256''), (''kty'', JStr ''RSA''), (''use'', JStr ''sig''),
           (''n'', JStr ''modulus-3''), (''e'', JStr ''AQAB''), (''kid'', JStr ''K1'')]"

definition sample_jwks :: json where
  "sample_jwks = JObj [(''keys'', JArr [key_K1, key_K2])]"

definition rsa_key_K1 :: pydict where
  "rsa_key_K1 =
     [(''kty'', JStr ''RSA''), (''kid'', JStr ''K1''), (''use'', JStr ''sig''),
      (''n'', JStr ''modulus-1''), (''e'', JStr ''AQAB'')]"

definition header_K1 :: pydict where
  "header_K1 = [(''alg'', JStr ''RS256''), (''typ'', JStr ''JWT''), (''kid'', JStr ''K1'')]"

definition header_without_kid :: pydict where
  "header_without_kid = [(''alg'', JStr ''RS256''), (''typ'', JStr ''JWT'')]"

definition barista_payload :: pydict where
  "barista_payload =
     [(''iss'', JStr ''https://tenant.example/''), (''aud'', JStr ''drinks''),
      (''permissions'', JArr [JStr ''get:drinks-detail''])]"

definition manager_payload :: pydict where
  "manager_payload =
     [(''iss'', JStr ''https://tenant.example/''), (''aud'', JStr ''drinks''),
      (''permissions'', JArr [JStr ''get:drinks-detail'', JStr ''patch:drinks''])]"

text \<open>
  Collaborators of one request: the authority publishes \<open>sample_jwks\<close>, and python-jose
  answers the token's header with \<open>h\<close> and its verification with \<open>d\<close>.
\<close>

definition sample_collaborators :: "pydict result \<Rightarrow> pydict result \<Rightarrow> collaborators" where
  "sample_collaborators h d =
     \<lparr>fetch_jwks = (\<lambda>url. if url = ''https://tenant.example/.well-known/jwks.json''
                           then Inr sample_jwks else Inl (OtherException ''URLError'')),
      get_unverified_header = (\<lambda>token. h),
      decode = (\<lambda>token rsa_key algorithms audience issuer. d)\<rparr>"

definition bearer_headers :: "string \<rightharpoonup> string" where
  "bearer_headers = [''Authorization'' \<mapsto> ''Bearer header.payload.signature'']"

text \<open>
  A table with one drink, and \<^verbatim>\<open>json.dumps\<close> on the values the examples hand to it.
\<close>

definition stored_drink :: Drink where
  "stored_drink = \<lparr>drink_id = 1, title = JStr ''Water'', recipe = ''stored-recipe''\<rparr>"

fun sample_dumps :: "json \<Rightarrow> string" where
  "sample_dumps JNull = ''null''"
| "sample_dumps (JArr []) = ''[]''"
| "sample_dumps v = ''other-json-text''"

definition sample_persistence :: "json \<Rightarrow> persistence" where
  "sample_persistence body =
     \<lparr>title_one_or_none = (\<lambda>t. Inr (if t = title stored_drink then Some stored_drink else None)),
      id_first = (\<lambda>i. if i = drink_id stored_drink then Some stored_drink else None),
      update = (\<lambda>drink. None),
      long = (\<lambda>drink. JObj [(''id'', JNum (drink_id drink)), (''title'', title drink),
                                (''recipe'', JStr (recipe drink))]),
      get_json = Inr body,
      dumps = sample_dumps\<rparr>"

section \<open>Properties\<close>

subsection \<open>Splitting a header value\<close>

lemma split_space_nonempty: "split_space s \<noteq> []"
  by (induction s) (auto split: list.splits)


lemma split_space_length: "length (split_space s) = Suc (count_list s (CHR '' ''))"
  by (induction s) (auto split: list.splits)

lemma split_space_pieces: "p \<in> set (split_space s) \<Longrightarrow> CHR '' '' \<notin> set p"
  by (induction s arbitrary: p) (auto split: list.splits if_splits)

lemma join_split_space: "join_space (split_space s) = s"
proof (induction s)
  case Nil
  then show ?case by simp
next
  case (Cons c cs)
  obtain p ps where ps: "split_space cs = p # ps"
    using split_space_nonempty [of cs] by (cases "split_space cs") auto
  show ?case
    using Cons ps by (cases ps) auto
qed

lemma split_space_no_space: "CHR '' '' \<notin> set b \<Longrightarrow> split_space b = [b]"
  by (induction b) auto

lemma split_space_append:
  "CHR '' '' \<notin> set a \<Longrightarrow> split_space (a @ CHR '' '' # b) = a # split_space b"
  by (induction a) auto

lemma split_space_two:
  "split_space s = [a, b] \<longleftrightarrow>
     s = a @ CHR '' '' # b \<and> CHR '' '' \<notin> set a \<and> CHR '' '' \<notin> set b"
proof
  assume h: "split_space s = [a, b]"
  have "join_space (split_space s) = s" by (rule join_split_space)
  then have "s = a @ CHR '' '' # b" using h by simp
  moreover have "CHR '' '' \<notin> set a" "CHR '' '' \<notin> set b"
    using split_space_pieces [of a s] split_space_pieces [of b s] h by simp_all
  ultimately show "s = a @ CHR '' '' # b \<and> CHR '' '' \<notin> set a \<and> CHR '' '' \<notin> set b"
    by simp
next
  assume "s = a @ CHR '' '' # b \<and> CHR '' '' \<notin> set a \<and> CHR '' '' \<notin> set b"
  then show "split_space s = [a, b]"
    by (simp add: split_space_append split_space_no_space)
qed

lemma lower_Bearer: "lower ''Bearer'' = ''bearer''"
  by code_simp

lemma lower_Basic: "lower ''Basic'' = ''basic''"
  by code_simp


lemma length_two: "length xs = 2 \<longleftrightarrow> (\<exists>a b. xs = [a, b])"
  by (cases xs; cases "tl xs") auto

lemma get_token_auth_header_absent:
  "headers ''Authorization'' = None \<Longrightarrow>
     get_token_auth_header headers = Inl (Raise_AuthError unauthorized)"
  by (simp add: get_token_auth_header_def)

lemma get_token_auth_header_not_two:
  "headers ''Authorization'' = Some v \<Longrightarrow> length (split_space v) \<noteq> 2 \<Longrightarrow>
     get_token_auth_header headers = Inl (Raise_AuthError unauthorized)"
  by (simp add: get_token_auth_header_def)

lemma get_token_auth_header_two:
  "headers ''Authorization'' = Some v \<Longrightarrow> split_space v = [a, b] \<Longrightarrow>
     get_token_auth_header headers =
       (if lower a = ''bearer'' then Inr b else Inl (Raise_AuthError unauthorized))"
  by (simp add: get_token_auth_header_def)

lemma get_token_auth_header_Inr:
  "get_token_auth_header headers = Inr token \<longleftrightarrow>
     (\<exists>scheme. headers ''Authorization'' = Some (scheme @ CHR '' '' # token)
        \<and> CHR '' '' \<notin> set scheme \<and> CHR '' '' \<notin> set token \<and> lower scheme = ''bearer'')"
proof
  assume r: "get_token_auth_header headers = Inr token"
  have "headers ''Authorization'' \<noteq> None"
  proof
    assume "headers ''Authorization'' = None"
    with get_token_auth_header_absent [of headers] r show False by simp
  qed
  then obtain v where v: "headers ''Authorization'' = Some v"
    by (cases "headers ''Authorization''") simp_all
  have "length (split_space v) = 2"
  proof (rule ccontr)
    assume "length (split_space v) \<noteq> 2"
    with get_token_auth_header_not_two [of headers v] v r show False by simp
  qed
  then obtain a b where ab: "split_space v = [a, b]"
    unfolding length_two by blast
  have res: "Inr token = (if lower a = ''bearer'' then Inr b else Inl (Raise_AuthError unauthorized))"
    using get_token_auth_header_two [of headers v a b] v ab r by simp
  have la: "lower a = ''bearer''"
    using res by (cases "lower a = ''bearer''") simp_all
  have bt: "b = token"
    using res la by simp
  have "v = a @ CHR '' '' # b \<and> CHR '' '' \<notin> set a \<and> CHR '' '' \<notin> set b"
    using ab unfolding split_space_two .
  then have "headers ''Authorization'' = Some (a @ CHR '' '' # token)
        \<and> CHR '' '' \<notin> set a \<and> CHR '' '' \<notin> set token \<and> lower a = ''bearer''"
    using v la bt by simp
  then show "\<exists>scheme. headers ''Authorization'' = Some (scheme @ CHR '' '' # token)
        \<and> CHR '' '' \<notin> set scheme \<and> CHR '' '' \<notin> set token \<and> lower scheme = ''bearer''"
    by (intro exI [of _ a])
next
  assume "\<exists>scheme. headers ''Authorization'' = Some (scheme @ CHR '' '' # token)
        \<and> CHR '' '' \<notin> set scheme \<and> CHR '' '' \<notin> set token \<and> lower scheme = ''bearer''"
  then obtain scheme where s: "headers ''Authorization'' = Some (scheme @ CHR '' '' # token)"
      "CHR '' '' \<notin> set scheme" "CHR '' '' \<notin> set token" "lower scheme = ''bearer''"
    by (elim exE conjE)
  have sp: "split_space (scheme @ CHR '' '' # token) = [scheme, token]"
    unfolding split_space_two using s(2,3) by simp
  show "get_token_auth_header headers = Inr token"
    using get_token_auth_header_two [of headers "scheme @ CHR '' '' # token" scheme token] s(1) sp s(4) by simp
qed

subsection \<open>The token extractor\<close>

lemma get_token_auth_header_Inl:
  "get_token_auth_header headers = Inl (Raise_AuthError unauthorized) \<longleftrightarrow>
      headers ''Authorization'' = None
      \<or> (\<exists>v. headers ''Authorization'' = Some v
            \<and> (length (split_space v) \<noteq> 2 \<or> lower (split_space v ! 0) \<noteq> ''bearer''))"
proof (cases "headers ''Authorization''")
  case None
  then show ?thesis by (simp add: get_token_auth_header_def)
next
  case (Some v)
  then show ?thesis by (simp add: get_token_auth_header_def Let_def)
qed

lemma get_token_auth_header_second_piece:
  "get_token_auth_header headers \<noteq> Inl (Raise_AuthError unauthorized) \<longrightarrow>
     (\<exists>v. headers ''Authorization'' = Some v
        \<and> get_token_auth_header headers = Inr (split_space v ! 1))"
proof (cases "headers ''Authorization''")
  case None
  then show ?thesis by (simp add: get_token_auth_header_def)
next
  case (Some v)
  then show ?thesis by (simp add: get_token_auth_header_def Let_def)
qed

text \<open>
  C4. \<^verbatim>\<open>get_token_auth_header\<close> fails with the error \<^verbatim>\<open>unauthorized\<close>, status 401,
  exactly when the \<^verbatim>\<open>Authorization\<close> header is absent, or its value does not split at
  spaces into two pieces, or the first piece in lower case is not \<^verbatim>\<open>bearer\<close>; in every
  other case it returns the second piece. Said without the split: it returns \<open>token\<close>
  exactly when the value is a scheme, one space and \<open>token\<close>, neither holding a space,
  and the scheme in lower case is \<^verbatim>\<open>bearer\<close>.
\<close>

theorem get_token_auth_header_spec:
  "(get_token_auth_header headers = Inl (Raise_AuthError unauthorized) \<longleftrightarrow>
      headers ''Authorization'' = None
      \<or> (\<exists>v. headers ''Authorization'' = Some v
            \<and> (length (split_space v) \<noteq> 2 \<or> lower (split_space v ! 0) \<noteq> ''bearer'')))
   \<and> (get_token_auth_header headers \<noteq> Inl (Raise_AuthError unauthorized) \<longrightarrow>
        (\<exists>v. headers ''Authorization'' = Some v
           \<and> get_token_auth_header headers = Inr (split_space v ! 1)))
   \<and> (\<forall>token. get_token_auth_header headers = Inr token \<longleftrightarrow>
        (\<exists>scheme. headers ''Authorization'' = Some (scheme @ CHR '' '' # token)
           \<and> CHR '' '' \<notin> set scheme \<and> CHR '' '' \<notin> set token \<and> lower scheme = ''bearer''))
   \<and> code (error unauthorized) = ''unauthorized''
   \<and> description (error unauthorized) = ''Unauthorized''
   \<and> status_code unauthorized = 401"
proof (intro conjI allI)
  show "get_token_auth_header headers = Inl (Raise_AuthError unauthorized) \<longleftrightarrow>
      headers ''Authorization'' = None
      \<or> (\<exists>v. headers ''Authorization'' = Some v
            \<and> (length (split_space v) \<noteq> 2 \<or> lower (split_space v ! 0) \<noteq> ''bearer''))"
    by (fact get_token_auth_header_Inl)
  show "get_token_auth_header headers \<noteq> Inl (Raise_AuthError unauthorized) \<longrightarrow>
        (\<exists>v. headers ''Authorization'' = Some v
           \<and> get_token_auth_header headers = Inr (split_space v ! 1))"
    by (fact get_token_auth_header_second_piece)
  show "get_token_auth_header headers = Inr token \<longleftrightarrow>
        (\<exists>scheme. headers ''Authorization'' = Some (scheme @ CHR '' '' # token)
           \<and> CHR '' '' \<notin> set scheme \<and> CHR '' '' \<notin> set token \<and> lower scheme = ''bearer'')"
    for token
    by (fact get_token_auth_header_Inr)
  show "code (error unauthorized) = ''unauthorized''"
    by (simp add: unauthorized_def)
  show "description (error unauthorized) = ''Unauthorized''"
    by (simp add: unauthorized_def)
  show "status_code unauthorized = 401"
    by (simp add: unauthorized_def)
qed

theorem get_token_auth_header_spec_witness:
  "get_token_auth_header [''Authorization'' \<mapsto> ''Bearer abc''] = Inr ''abc''
   \<and> get_token_auth_header Map.empty = Inl (Raise_AuthError unauthorized)
   \<and> get_token_auth_header [''Authorization'' \<mapsto> ''Bearer''] = Inl (Raise_AuthError unauthorized)
   \<and> get_token_auth_header [''Authorization'' \<mapsto> ''Bearer a b''] = Inl (Raise_AuthError unauthorized)
   \<and> get_token_auth_header [''Authorization'' \<mapsto> ''Basic xyz''] = Inl (Raise_AuthError unauthorized)"
proof (intro conjI)
  have "\<exists>scheme. [''Authorization'' \<mapsto> ''Bearer abc''] ''Authorization''
            = Some (scheme @ CHR '' '' # ''abc'')
          \<and> CHR '' '' \<notin> set scheme \<and> CHR '' '' \<notin> set ''abc'' \<and> lower scheme = ''bearer''"
    by (intro exI [of _ "''Bearer''"]) (simp add: lower_Bearer)
  then show "get_token_auth_header [''Authorization'' \<mapsto> ''Bearer abc''] = Inr ''abc''"
    using get_token_auth_header_spec [of "[''Authorization'' \<mapsto> ''Bearer abc'']",
        THEN conjunct2, THEN conjunct2, THEN conjunct1, THEN spec, of "''abc''"]
    by (rule_tac iffD2)
  show "get_token_auth_header Map.empty = Inl (Raise_AuthError unauthorized)"
    using get_token_auth_header_spec [of Map.empty, THEN conjunct1] by simp
  show "get_token_auth_header [''Authorization'' \<mapsto> ''Bearer''] = Inl (Raise_AuthError unauthorized)"
    using get_token_auth_header_spec [of "[''Authorization'' \<mapsto> ''Bearer'']", THEN conjunct1]
    by simp
  show "get_token_auth_header [''Authorization'' \<mapsto> ''Bearer a b''] = Inl (Raise_AuthError unauthorized)"
    using get_token_auth_header_spec [of "[''Authorization'' \<mapsto> ''Bearer a b'']", THEN conjunct1]
    by simp
  show "get_token_auth_header [''Authorization'' \<mapsto> ''Basic xyz''] = Inl (Raise_AuthError unauthorized)"
    using get_token_auth_header_spec [of "[''Authorization'' \<mapsto> ''Basic xyz'']", THEN conjunct1]
    by (simp add: lower_Basic)
qed

subsection \<open>The permission guard\<close>




subsection \<open>The empty token\<close>

lemma requires_auth_calls_verify:
  "get_token_auth_header headers = Inr token \<Longrightarrow>
     Call_verify_decode_jwt token \<in> set (snd (requires_auth permission f cfg lib headers args))"
  by (simp add: requires_auth_def split: prod.splits sum.splits)

text \<open>
  C10. The header value \<^verbatim>\<open>"Bearer "\<close> is accepted with the empty string as token; so is
  every value that splits into a scheme that is \<^verbatim>\<open>bearer\<close> in lower case and an empty
  second piece. The wrapper then calls \<^verbatim>\<open>verify_decode_jwt\<close> on the empty string.
\<close>

theorem empty_token_accepted:
  "get_token_auth_header [''Authorization'' \<mapsto> ''Bearer ''] = Inr []
   \<and> (\<forall>headers v scheme.
         headers ''Authorization'' = Some v \<and> split_space v = [scheme, []]
           \<and> lower scheme = ''bearer''
         \<longrightarrow> get_token_auth_header headers = Inr []
             \<and> (\<forall>permission (f :: 'a \<Rightarrow> 'r result) cfg lib args.
                   Call_verify_decode_jwt []
                     \<in> set (snd (requires_auth permission f cfg lib headers args))))"
proof (intro conjI allI impI)
  show "get_token_auth_header [''Authorization'' \<mapsto> ''Bearer ''] = Inr []"
    by (simp add: get_token_auth_header_def lower_Bearer)
next
  fix headers v scheme
  assume h: "headers ''Authorization'' = Some v \<and> split_space v = [scheme, []]
           \<and> lower scheme = ''bearer''"
  then show r: "get_token_auth_header headers = Inr []"
    using get_token_auth_header_two [of headers v scheme "[]"] by simp
  fix permission and f :: "'a \<Rightarrow> 'r result" and cfg lib args
  show "Call_verify_decode_jwt [] \<in> set (snd (requires_auth permission f cfg lib headers args))"
    using r by (rule requires_auth_calls_verify)
qed

theorem empty_token_accepted_witness:
  "get_token_auth_header [''Authorization'' \<mapsto> ''Bearer ''] = Inr []
   \<and> Call_verify_decode_jwt []
       \<in> set (snd (requires_auth ''get:drinks-detail'' (\<lambda>u :: unit. Inr () :: unit result)
                \<lparr>AUTH0_DOMAIN = Some ''tenant.example'', ALGORITHMS = [Some ''RS256''],
                   API_AUDIENCE = Some ''drinks''\<rparr>
                \<lparr>fetch_jwks = (\<lambda>url. Inr (JObj [(''keys'', JArr [])])),
                   get_unverified_header = (\<lambda>t. Inl JWTError),
                   decode = (\<lambda>t k a b c. Inl JWTError)\<rparr>
                [''Authorization'' \<mapsto> ''Bearer ''] ()))"
proof -
  have h: "[''Authorization'' \<mapsto> ''Bearer ''] ''Authorization'' = Some ''Bearer ''
      \<and> split_space ''Bearer '' = [''Bearer'', []] \<and> lower ''Bearer'' = ''bearer''"
    by (simp add: lower_Bearer)
  note general = empty_token_accepted [where 'a = unit and 'r = unit, THEN conjunct2, rule_format,
      of "[''Authorization'' \<mapsto> ''Bearer '']" "''Bearer ''" "''Bearer''", OF h]
  show ?thesis
    using general [THEN conjunct1] general [THEN conjunct2, rule_format]
    by (intro conjI)
qed

subsection \<open>Key resolution\<close>

lemma kid_matches_iff:
  "kid_matches kid key \<longleftrightarrow> (\<exists>k. getitem key ''kid'' = Inr k \<and> py_eq k kid)"
  by (cases "getitem key ''kid''") (simp_all add: kid_matches_def)

lemma find_rsa_key_last:
  assumes "\<forall>k \<in> set keys. \<exists>v. getitem k ''kid'' = Inr v"
    and "\<forall>k \<in> set keys. kid_matches kid k \<longrightarrow> (\<exists>rk. make_rsa_key k = Inr rk)"
  shows "find_rsa_key keys kid acc =
           (case filter (kid_matches kid) keys of
              [] \<Rightarrow> Inr acc
            | m # ms \<Rightarrow> make_rsa_key (last (m # ms)))"
  using assms
proof (induction keys arbitrary: acc)
  case Nil
  then show ?case by simp
next
  case (Cons key keys)
  obtain v where v: "getitem key ''kid'' = Inr v"
    using Cons.prems(1) by auto
  have ih: "\<And>acc. find_rsa_key keys kid acc =
           (case filter (kid_matches kid) keys of
              [] \<Rightarrow> Inr acc
            | m # ms \<Rightarrow> make_rsa_key (last (m # ms)))"
    using Cons.IH Cons.prems by simp
  show ?case
  proof (cases "py_eq v kid")
    case True
    then have m: "kid_matches kid key"
      using v by (simp add: kid_matches_def)
    then obtain rk where rk: "make_rsa_key key = Inr rk"
      using Cons.prems(2) by auto
    show ?thesis
      using True v m rk ih [of rk] by (simp split: list.splits)
  next
    case False
    then have "\<not> kid_matches kid key"
      using v by (simp add: kid_matches_def)
    then show ?thesis
      using False v ih [of acc] by simp
  qed
qed

lemma make_rsa_key_fields:
  assumes "getitem d ''kty'' = Inr kty" "getitem d ''kid'' = Inr kid" "getitem d ''use'' = Inr use"
    "getitem d ''n'' = Inr n" "getitem d ''e'' = Inr e"
  shows "make_rsa_key d = Inr [(''kty'', kty), (''kid'', kid), (''use'', use), (''n'', n), (''e'', e)]"
  using assms by (simp add: make_rsa_key_def)

text \<open>
  C8, as the code has it. In a key set whose descriptors all carry a \<^verbatim>\<open>kid\<close>, and
  where those whose \<^verbatim>\<open>kid\<close> equals the token's also carry \<^verbatim>\<open>kty\<close>, \<^verbatim>\<open>use\<close>, \<^verbatim>\<open>n\<close>
  and \<^verbatim>\<open>e\<close>, if some descriptor's \<^verbatim>\<open>kid\<close> equals the token's then the loop ends with a
  resolved key that has exactly the fields \<^verbatim>\<open>kty\<close>, \<^verbatim>\<open>kid\<close>, \<^verbatim>\<open>use\<close>, \<^verbatim>\<open>n\<close>, \<^verbatim>\<open>e\<close>,
  each with the value it has in the last descriptor of the set whose \<^verbatim>\<open>kid\<close> equals the
  token's.
\<close>

theorem resolved_key_roundtrip:
  assumes kids: "\<forall>k \<in> set keys. \<exists>v. getitem k ''kid'' = Inr v"
    and fields: "\<forall>k \<in> set keys. kid_matches kid k \<longrightarrow>
        (\<exists>kty use n e. getitem k ''kty'' = Inr kty \<and> getitem k ''use'' = Inr use
           \<and> getitem k ''n'' = Inr n \<and> getitem k ''e'' = Inr e)"
    and match: "\<exists>k \<in> set keys. kid_matches kid k"
  shows "\<exists>d \<in> set keys. \<exists>rsa_key.
           d = last (filter (kid_matches kid) keys)
         \<and> kid_matches kid d
         \<and> find_rsa_key keys kid [] = Inr rsa_key
         \<and> map fst rsa_key = [''kty'', ''kid'', ''use'', ''n'', ''e'']
         \<and> (\<forall>fld \<in> set (map fst rsa_key). getitem (JObj rsa_key) fld = getitem d fld)"
proof -
  let ?ms = "filter (kid_matches kid) keys"
  let ?d = "last ?ms"
  have ne: "?ms \<noteq> []"
    using match by (simp add: filter_empty_conv)
  then have "?d \<in> set ?ms"
    by (rule last_in_set)
  then have d_in: "?d \<in> set keys" and d_kid: "kid_matches kid ?d"
    by simp_all
  obtain k where k: "getitem ?d ''kid'' = Inr k"
    using kids d_in by auto
  obtain kty use n e where f: "getitem ?d ''kty'' = Inr kty" "getitem ?d ''use'' = Inr use"
      "getitem ?d ''n'' = Inr n" "getitem ?d ''e'' = Inr e"
    using fields d_in d_kid by blast
  let ?rk = "[(''kty'', kty), (''kid'', k), (''use'', use), (''n'', n), (''e'', e)]"
  have mk: "make_rsa_key ?d = Inr ?rk"
    using f k by (simp add: make_rsa_key_fields)
  have all_mk: "\<forall>k \<in> set keys. kid_matches kid k \<longrightarrow> (\<exists>rk. make_rsa_key k = Inr rk)"
  proof (intro ballI impI)
    fix x assume x: "x \<in> set keys" "kid_matches kid x"
    obtain k' where k': "getitem x ''kid'' = Inr k'"
      using kids x(1) by auto
    obtain kty' use' n' e' where "getitem x ''kty'' = Inr kty'" "getitem x ''use'' = Inr use'"
      "getitem x ''n'' = Inr n'" "getitem x ''e'' = Inr e'"
      using fields x by blast
    then show "\<exists>rk. make_rsa_key x = Inr rk"
      using k' by (simp add: make_rsa_key_fields)
  qed
  obtain m ms where ms: "?ms = m # ms"
    using ne by (cases ?ms) simp_all
  have "find_rsa_key keys kid [] = make_rsa_key ?d"
    using find_rsa_key_last [OF kids all_mk, of "[]"] ms by simp
  then have found: "find_rsa_key keys kid [] = Inr ?rk"
    using mk by simp
  have same: "\<forall>fld \<in> set (map fst ?rk). getitem (JObj ?rk) fld = getitem ?d fld"
    using f k by simp
  have "?d = last ?ms \<and> kid_matches kid ?d \<and> find_rsa_key keys kid [] = Inr ?rk
      \<and> map fst ?rk = [''kty'', ''kid'', ''use'', ''n'', ''e'']
      \<and> (\<forall>fld \<in> set (map fst ?rk). getitem (JObj ?rk) fld = getitem ?d fld)"
    using d_kid found same by simp
  then have "\<exists>rsa_key. ?d = last ?ms \<and> kid_matches kid ?d
      \<and> find_rsa_key keys kid [] = Inr rsa_key
      \<and> map fst rsa_key = [''kty'', ''kid'', ''use'', ''n'', ''e'']
      \<and> (\<forall>fld \<in> set (map fst rsa_key). getitem (JObj rsa_key) fld = getitem ?d fld)"
    by (intro exI [of _ ?rk])
  then show ?thesis
    using d_in by (intro bexI [of _ ?d])
qed


theorem resolved_key_roundtrip_witness:
  "\<exists>rsa_key. find_rsa_key [key_K1, key_K2] (JStr ''K1'') [] = Inr rsa_key
     \<and> getitem (JObj rsa_key) ''kty'' = Inr (JStr ''RSA'')
     \<and> getitem (JObj rsa_key) ''kid'' = Inr (JStr ''K1'')
     \<and> getitem (JObj rsa_key) ''use'' = Inr (JStr ''sig'')
     \<and> getitem (JObj rsa_key) ''n'' = Inr (JStr ''modulus-1'')
     \<and> getitem (JObj rsa_key) ''e'' = Inr (JStr ''AQAB'')"
proof -
  have kids: "\<forall>k \<in> set [key_K1, key_K2]. \<exists>v. getitem k ''kid'' = Inr v"
    by (simp add: key_K1_def key_K2_def)
  have fields: "\<forall>k \<in> set [key_K1, key_K2]. kid_matches (JStr ''K1'') k \<longrightarrow>
        (\<exists>kty use n e. getitem k ''kty'' = Inr kty \<and> getitem k ''use'' = Inr use
           \<and> getitem k ''n'' = Inr n \<and> getitem k ''e'' = Inr e)"
    by (simp add: key_K1_def key_K2_def kid_matches_def)
  have match: "\<exists>k \<in> set [key_K1, key_K2]. kid_matches (JStr ''K1'') k"
    by (simp add: key_K1_def key_K2_def kid_matches_def)
  have "\<exists>d \<in> set [key_K1, key_K2]. \<exists>rsa_key.
           d = last (filter (kid_matches (JStr ''K1'')) [key_K1, key_K2])
         \<and> kid_matches (JStr ''K1'') d
         \<and> find_rsa_key [key_K1, key_K2] (JStr ''K1'') [] = Inr rsa_key
         \<and> map fst rsa_key = [''kty'', ''kid'', ''use'', ''n'', ''e'']
         \<and> (\<forall>fld \<in> set (map fst rsa_key). getitem (JObj rsa_key) fld = getitem d fld)"
    by (rule resolved_key_roundtrip [OF kids fields match])
  then obtain d where "\<exists>rsa_key.
           d = last (filter (kid_matches (JStr ''K1'')) [key_K1, key_K2])
         \<and> kid_matches (JStr ''K1'') d
         \<and> find_rsa_key [key_K1, key_K2] (JStr ''K1'') [] = Inr rsa_key
         \<and> map fst rsa_key = [''kty'', ''kid'', ''use'', ''n'', ''e'']
         \<and> (\<forall>fld \<in> set (map fst rsa_key). getitem (JObj rsa_key) fld = getitem d fld)" ..
  then obtain rsa_key where all:
          "d = last (filter (kid_matches (JStr ''K1'')) [key_K1, key_K2])
         \<and> kid_matches (JStr ''K1'') d
         \<and> find_rsa_key [key_K1, key_K2] (JStr ''K1'') [] = Inr rsa_key
         \<and> map fst rsa_key = [''kty'', ''kid'', ''use'', ''n'', ''e'']
         \<and> (\<forall>fld \<in> set (map fst rsa_key). getitem (JObj rsa_key) fld = getitem d fld)" ..
  note d = all [THEN conjunct1]
  note found = all [THEN conjunct2, THEN conjunct2, THEN conjunct1]
  note names = all [THEN conjunct2, THEN conjunct2, THEN conjunct2, THEN conjunct1]
  note same = all [THEN conjunct2, THEN conjunct2, THEN conjunct2, THEN conjunct2]
  have "d = key_K1"
    using d by (simp add: key_K1_def key_K2_def kid_matches_def)
  then have "\<forall>fld \<in> set [''kty'', ''kid'', ''use'', ''n'', ''e''].
      getitem (JObj rsa_key) fld = getitem key_K1 fld"
    using same names by simp
  then have "getitem (JObj rsa_key) ''kty'' = Inr (JStr ''RSA'')
     \<and> getitem (JObj rsa_key) ''kid'' = Inr (JStr ''K1'')
     \<and> getitem (JObj rsa_key) ''use'' = Inr (JStr ''sig'')
     \<and> getitem (JObj rsa_key) ''n'' = Inr (JStr ''modulus-1'')
     \<and> getitem (JObj rsa_key) ''e'' = Inr (JStr ''AQAB'')"
    by (simp add: key_K1_def)
  then show ?thesis
    using found by (intro exI [of _ rsa_key]) simp
qed

text \<open>
  C8 as stated, for every key set that holds a descriptor with the token's \<^verbatim>\<open>kid\<close>,
  fails three ways. The loop reads \<^verbatim>\<open>key["kid"]\<close> of every descriptor, so a later
  descriptor without \<^verbatim>\<open>kid\<close> raises \<^verbatim>\<open>KeyError\<close> although an earlier one matched. A
  matching descriptor without \<^verbatim>\<open>use\<close> raises \<^verbatim>\<open>KeyError\<close> when the resolved key is
  built. And of two descriptors with the token's \<^verbatim>\<open>kid\<close> the later one is resolved: the
  modulus is not that of the first.
\<close>

theorem resolved_key_counterexample:
  "find_rsa_key [key_K1, JObj [(''kty'', JStr ''RSA'')]] (JStr ''K1'') [] = Inl KeyError
   \<and> find_rsa_key
        [JObj [(''kty'', JStr ''RSA''), (''n'', JStr ''modulus-1''), (''e'', JStr ''AQAB''),
               (''kid'', JStr ''K1'')]]
        (JStr ''K1'') [] = Inl KeyError
   \<and> find_rsa_key [key_K1, key_K1_rotated] (JStr ''K1'') []
       = Inr [(''kty'', JStr ''RSA''), (''kid'', JStr ''K1''), (''use'', JStr ''sig''),
              (''n'', JStr ''modulus-3''), (''e'', JStr ''AQAB'')]
   \<and> getitem key_K1 ''kid'' = Inr (JStr ''K1'')
   \<and> getitem key_K1 ''n'' = Inr (JStr ''modulus-1'')"
  by (simp add: key_K1_def key_K1_rotated_def make_rsa_key_def)

subsection \<open>Verification failures\<close>

lemma verify_decode_jwt_decoding:
  assumes "fetch_jwks lib (''https://'' @ format_str (AUTH0_DOMAIN cfg) @ ''/.well-known/jwks.json'')
             = Inr jwks"
    and "get_unverified_header lib token = Inr unverified_header"
    and "map_of unverified_header ''kid'' = Some kid"
    and "getitem jwks ''keys'' = Inr ks"
    and "iter ks = Inr keys"
    and "find_rsa_key keys kid [] = Inr rsa_key"
    and "rsa_key \<noteq> []"
  shows "fst (verify_decode_jwt cfg lib token) = fst (decode_with_key cfg lib token rsa_key)"
  using assms by (simp add: verify_decode_jwt_def Let_def split: prod.splits)

text \<open>
  C5. When the key set was fetched, the token's header names a \<^verbatim>\<open>kid\<close> and the loop
  found a key for it (\<open>rsa_key\<close> is not empty), an \<^verbatim>\<open>ExpiredSignatureError\<close> of
  \<^verbatim>\<open>jwt.decode\<close> becomes the error \<^verbatim>\<open>token_expired\<close> with status 401 and a
  \<^verbatim>\<open>JWTClaimsError\<close> becomes \<^verbatim>\<open>invalid_claims\<close> with status 403. The two codes differ
  from each other and from \<^verbatim>\<open>invalid_header\<close>, the code of the three other errors of
  \<^verbatim>\<open>verify_decode_jwt\<close>.
\<close>

theorem decode_failures_mapped:
  assumes "fetch_jwks lib (''https://'' @ format_str (AUTH0_DOMAIN cfg) @ ''/.well-known/jwks.json'')
             = Inr jwks"
    and "get_unverified_header lib token = Inr unverified_header"
    and "map_of unverified_header ''kid'' = Some kid"
    and "getitem jwks ''keys'' = Inr ks"
    and "iter ks = Inr keys"
    and "find_rsa_key keys kid [] = Inr rsa_key"
    and "rsa_key \<noteq> []"
    and "AUTH0_DOMAIN cfg = Some domain"
  shows "(decode lib token rsa_key (ALGORITHMS cfg) (API_AUDIENCE cfg) (''https://'' @ domain @ ''/'')
            = Inl ExpiredSignatureError
          \<longrightarrow> fst (verify_decode_jwt cfg lib token) = Inl (Raise_AuthError token_expired))
       \<and> (decode lib token rsa_key (ALGORITHMS cfg) (API_AUDIENCE cfg) (''https://'' @ domain @ ''/'')
            = Inl JWTClaimsError
          \<longrightarrow> fst (verify_decode_jwt cfg lib token) = Inl (Raise_AuthError invalid_claims))
       \<and> code (error token_expired) = ''token_expired'' \<and> status_code token_expired = 401
       \<and> code (error invalid_claims) = ''invalid_claims'' \<and> status_code invalid_claims = 403
       \<and> code (error token_expired) \<noteq> code (error invalid_claims)
       \<and> code (error token_expired) \<noteq> ''invalid_header''
       \<and> code (error invalid_claims) \<noteq> ''invalid_header''
       \<and> code (error missing_kid) = ''invalid_header''
       \<and> code (error unable_to_parse) = ''invalid_header''
       \<and> code (error key_not_found) = ''invalid_header''"
proof -
  have eq: "fst (verify_decode_jwt cfg lib token) = fst (decode_with_key cfg lib token rsa_key)"
    using assms(1-7) by (rule verify_decode_jwt_decoding)
  have 1: "decode lib token rsa_key (ALGORITHMS cfg) (API_AUDIENCE cfg) (''https://'' @ domain @ ''/'')
            = Inl ExpiredSignatureError
          \<longrightarrow> fst (verify_decode_jwt cfg lib token) = Inl (Raise_AuthError token_expired)"
    using assms(8) by (simp add: eq decode_with_key_def)
  have 2: "decode lib token rsa_key (ALGORITHMS cfg) (API_AUDIENCE cfg) (''https://'' @ domain @ ''/'')
            = Inl JWTClaimsError
          \<longrightarrow> fst (verify_decode_jwt cfg lib token) = Inl (Raise_AuthError invalid_claims)"
    using assms(8) by (simp add: eq decode_with_key_def)
  have 3: "code (error token_expired) = ''token_expired'' \<and> status_code token_expired = 401
       \<and> code (error invalid_claims) = ''invalid_claims'' \<and> status_code invalid_claims = 403
       \<and> code (error token_expired) \<noteq> code (error invalid_claims)
       \<and> code (error token_expired) \<noteq> ''invalid_header''
       \<and> code (error invalid_claims) \<noteq> ''invalid_header''
       \<and> code (error missing_kid) = ''invalid_header''
       \<and> code (error unable_to_parse) = ''invalid_header''
       \<and> code (error key_not_found) = ''invalid_header''"
    by (simp add: token_expired_def invalid_claims_def missing_kid_def unable_to_parse_def
        key_not_found_def)
  show ?thesis
    using 1 2 3 by (intro conjI) simp_all
qed


lemma sample_fetch:
  "fetch_jwks (sample_collaborators h d)
     (''https://'' @ format_str (AUTH0_DOMAIN sample_config) @ ''/.well-known/jwks.json'')
   = Inr sample_jwks"
  by (simp add: sample_collaborators_def sample_config_def format_str_def)

lemma sample_find_K1: "find_rsa_key [key_K1, key_K2] (JStr ''K1'') [] = Inr rsa_key_K1"
  by (simp add: key_K1_def key_K2_def rsa_key_K1_def make_rsa_key_def)

theorem decode_failures_mapped_witness:
  "fst (verify_decode_jwt sample_config
          (sample_collaborators (Inr header_K1) (Inl ExpiredSignatureError))
          ''header.payload.signature'') = Inl (Raise_AuthError token_expired)
   \<and> fst (verify_decode_jwt sample_config
          (sample_collaborators (Inr header_K1) (Inl JWTClaimsError))
          ''header.payload.signature'') = Inl (Raise_AuthError invalid_claims)"
proof (intro conjI)
  have kid: "map_of header_K1 ''kid'' = Some (JStr ''K1'')"
    by (simp add: header_K1_def)
  have ks: "getitem sample_jwks ''keys'' = Inr (JArr [key_K1, key_K2])"
    by (simp add: sample_jwks_def)
  have it: "iter (JArr [key_K1, key_K2]) = Inr [key_K1, key_K2]"
    by simp
  have ne: "rsa_key_K1 \<noteq> []"
    by (simp add: rsa_key_K1_def)
  have dom: "AUTH0_DOMAIN sample_config = Some ''tenant.example''"
    by (simp add: sample_config_def)
  have hd: "\<And>d. get_unverified_header (sample_collaborators (Inr header_K1) d)
      ''header.payload.signature'' = Inr header_K1"
    by (simp add: sample_collaborators_def)
  show "fst (verify_decode_jwt sample_config
          (sample_collaborators (Inr header_K1) (Inl ExpiredSignatureError))
          ''header.payload.signature'') = Inl (Raise_AuthError token_expired)"
    using decode_failures_mapped [OF sample_fetch hd kid ks it sample_find_K1 ne dom,
        THEN conjunct1]
    by (simp add: sample_collaborators_def)
  show "fst (verify_decode_jwt sample_config
          (sample_collaborators (Inr header_K1) (Inl JWTClaimsError))
          ''header.payload.signature'') = Inl (Raise_AuthError invalid_claims)"
    using decode_failures_mapped [OF sample_fetch hd kid ks it sample_find_K1 ne dom,
        THEN conjunct2, THEN conjunct1]
    by (simp add: sample_collaborators_def)
qed

lemma decode_with_key_results:
  "(\<exists>payload. fst (decode_with_key cfg lib token rsa_key) = Inr payload)
   \<or> fst (decode_with_key cfg lib token rsa_key) = Inl (Raise_AuthError token_expired)
   \<or> fst (decode_with_key cfg lib token rsa_key) = Inl (Raise_AuthError invalid_claims)
   \<or> fst (decode_with_key cfg lib token rsa_key) = Inl (Raise_AuthError unable_to_parse)"
  by (simp add: decode_with_key_def split: option.splits sum.splits exc.splits)

lemma decode_with_key_other:
  assumes "AUTH0_DOMAIN cfg = Some domain"
    and "decode lib token rsa_key (ALGORITHMS cfg) (API_AUDIENCE cfg) (''https://'' @ domain @ ''/'')
           = Inl x"
    and "x \<noteq> ExpiredSignatureError" and "x \<noteq> JWTClaimsError"
  shows "fst (decode_with_key cfg lib token rsa_key) = Inl (Raise_AuthError unable_to_parse)"
  using assms by (simp add: decode_with_key_def split: exc.splits)

lemma decode_with_key_unset_domain:
  "AUTH0_DOMAIN cfg = None \<Longrightarrow>
     decode_with_key cfg lib token rsa_key = (Inl (Raise_AuthError unable_to_parse), [])"
  by (simp add: decode_with_key_def)

lemma verify_decode_jwt_missing_kid:
  assumes "fetch_jwks lib (''https://'' @ format_str (AUTH0_DOMAIN cfg) @ ''/.well-known/jwks.json'')
             = Inr jwks"
    and "get_unverified_header lib token = Inr unverified_header"
    and "map_of unverified_header ''kid'' = None"
  shows "fst (verify_decode_jwt cfg lib token) = Inl (Raise_AuthError missing_kid)"
  using assms by (simp add: verify_decode_jwt_def Let_def)

lemma verify_decode_jwt_key_not_found:
  assumes "fetch_jwks lib (''https://'' @ format_str (AUTH0_DOMAIN cfg) @ ''/.well-known/jwks.json'')
             = Inr jwks"
    and "get_unverified_header lib token = Inr unverified_header"
    and "map_of unverified_header ''kid'' = Some kid"
    and "getitem jwks ''keys'' = Inr ks"
    and "iter ks = Inr keys"
    and "find_rsa_key keys kid [] = Inr []"
  shows "fst (verify_decode_jwt cfg lib token) = Inl (Raise_AuthError key_not_found)"
  using assms by (simp add: verify_decode_jwt_def Let_def)

lemma verify_decode_jwt_header_raises:
  assumes "fetch_jwks lib (''https://'' @ format_str (AUTH0_DOMAIN cfg) @ ''/.well-known/jwks.json'')
             = Inr jwks"
    and "get_unverified_header lib token = Inl x"
  shows "fst (verify_decode_jwt cfg lib token) = Inl x"
  using assms by (simp add: verify_decode_jwt_def Let_def)


text \<open>
  Once the token's header has been read and the key set scanned, every failure is an
  \<^verbatim>\<open>AuthError\<close>: the one of the missing \<^verbatim>\<open>kid\<close> with status 401, the others with status
  403 or, for an expired token, 401.
\<close>

lemma verification_failures_normalised:
  assumes fetch:
      "fetch_jwks lib (''https://'' @ format_str (AUTH0_DOMAIN cfg) @ ''/.well-known/jwks.json'')
         = Inr jwks"
    and header: "get_unverified_header lib token = Inr unverified_header"
    and ks: "getitem jwks ''keys'' = Inr ks"
    and keys: "iter ks = Inr keys"
    and scan: "\<forall>kid. map_of unverified_header ''kid'' = Some kid \<longrightarrow>
                 (\<exists>rsa_key. find_rsa_key keys kid [] = Inr rsa_key)"
  shows "((\<exists>payload. fst (verify_decode_jwt cfg lib token) = Inr payload)
          \<or> (\<exists>e. fst (verify_decode_jwt cfg lib token) = Inl (Raise_AuthError e)))
       \<and> (\<forall>e. fst (verify_decode_jwt cfg lib token) = Inl (Raise_AuthError e)
              \<and> e \<noteq> token_expired \<and> e \<noteq> invalid_claims
            \<longrightarrow> code (error e) = ''invalid_header''
                \<and> status_code e = (if map_of unverified_header ''kid'' = None then 401 else 403))
       \<and> (\<forall>kid rsa_key domain x.
              map_of unverified_header ''kid'' = Some kid
              \<and> find_rsa_key keys kid [] = Inr rsa_key \<and> rsa_key \<noteq> []
              \<and> AUTH0_DOMAIN cfg = Some domain
              \<and> decode lib token rsa_key (ALGORITHMS cfg) (API_AUDIENCE cfg)
                   (''https://'' @ domain @ ''/'') = Inl x
              \<and> x \<noteq> ExpiredSignatureError \<and> x \<noteq> JWTClaimsError
            \<longrightarrow> fst (verify_decode_jwt cfg lib token) = Inl (Raise_AuthError unable_to_parse))"
proof -
  let ?r = "fst (verify_decode_jwt cfg lib token)"
  have codes: "code (error missing_kid) = ''invalid_header'' \<and> status_code missing_kid = 401
      \<and> code (error key_not_found) = ''invalid_header'' \<and> status_code key_not_found = 403
      \<and> code (error unable_to_parse) = ''invalid_header'' \<and> status_code unable_to_parse = 403"
    by (simp add: missing_kid_def key_not_found_def unable_to_parse_def)
  have third: "?r = Inl (Raise_AuthError unable_to_parse)"
    if h: "map_of unverified_header ''kid'' = Some kid
         \<and> find_rsa_key keys kid [] = Inr rsa_key \<and> rsa_key \<noteq> []
         \<and> AUTH0_DOMAIN cfg = Some domain
         \<and> decode lib token rsa_key (ALGORITHMS cfg) (API_AUDIENCE cfg)
              (''https://'' @ domain @ ''/'') = Inl x
         \<and> x \<noteq> ExpiredSignatureError \<and> x \<noteq> JWTClaimsError"
    for kid rsa_key domain x
  proof -
    have "?r = fst (decode_with_key cfg lib token rsa_key)"
      using verify_decode_jwt_decoding [OF fetch header _ ks keys, of kid rsa_key] h by simp
    then show ?thesis
      using decode_with_key_other [of cfg domain lib token rsa_key x] h by simp
  qed
  have first_second:
    "((\<exists>payload. ?r = Inr payload) \<or> (\<exists>e. ?r = Inl (Raise_AuthError e)))
     \<and> (\<forall>e. ?r = Inl (Raise_AuthError e) \<and> e \<noteq> token_expired \<and> e \<noteq> invalid_claims
            \<longrightarrow> code (error e) = ''invalid_header''
                \<and> status_code e = (if map_of unverified_header ''kid'' = None then 401 else 403))"
  proof (cases "map_of unverified_header ''kid''")
    case None
    then have "?r = Inl (Raise_AuthError missing_kid)"
      using verify_decode_jwt_missing_kid [OF fetch header] by simp
    then show ?thesis
      using None codes by simp
  next
    case (Some kid)
    then obtain rsa_key where rk: "find_rsa_key keys kid [] = Inr rsa_key"
      using scan by auto
    show ?thesis
    proof (cases "rsa_key = []")
      case True
      then have "?r = Inl (Raise_AuthError key_not_found)"
        using verify_decode_jwt_key_not_found [OF fetch header Some ks keys] rk by simp
      then show ?thesis
        using Some codes by simp
    next
      case False
      have eq: "?r = fst (decode_with_key cfg lib token rsa_key)"
        using verify_decode_jwt_decoding [OF fetch header Some ks keys rk False] .
      show ?thesis
        using decode_with_key_results [of cfg lib token rsa_key] Some codes
        unfolding eq by auto
    qed
  qed
  show ?thesis
    using first_second third by (intro conjI allI impI) simp_all
qed

text \<open>
  C3 at a token whose header python-jose cannot read, the malformed token of the
  claim. \<^verbatim>\<open>jwt.get_unverified_header\<close> is called at line 102, before the \<^verbatim>\<open>try\<close> of line
  121, so its \<^verbatim>\<open>JWTError\<close> leaves \<^verbatim>\<open>verify_decode_jwt\<close> as it is: no \<^verbatim>\<open>AuthError\<close>
  \<^verbatim>\<open>invalid_header\<close> with status 403 is raised. The wrapper catches \<^verbatim>\<open>AuthError\<close> only,
  and the request ends in the handler of 500.
\<close>

theorem unreadable_header_raises_raw:
  "fst (verify_decode_jwt sample_config (sample_collaborators (Inl JWTError) d) ''not-a-token'')
     = Inl JWTError
   \<and> fst (requires_auth permission f sample_config (sample_collaborators (Inl JWTError) d)
            [''Authorization'' \<mapsto> ''Bearer not-a-token''] args)
     = Inl JWTError
   \<and> handle_user_exception JWTError
     = Some ([(''success'', JBool False), (''error'', JNum 500),
              (''message'', JStr ''Internal Server Error'')], 500)"
proof -
  have v: "fst (verify_decode_jwt sample_config (sample_collaborators (Inl JWTError) d)
      ''not-a-token'') = Inl JWTError"
    by (simp add: verify_decode_jwt_def sample_collaborators_def sample_config_def
        format_str_def)
  have t: "get_token_auth_header [''Authorization'' \<mapsto> ''Bearer not-a-token'']
      = Inr ''not-a-token''"
    by (simp add: get_token_auth_header_def lower_Bearer)
  obtain evs where p: "verify_decode_jwt sample_config (sample_collaborators (Inl JWTError) d)
      ''not-a-token'' = (Inl JWTError, evs)"
    using v by (cases "verify_decode_jwt sample_config (sample_collaborators (Inl JWTError) d)
      ''not-a-token''") simp
  have r: "fst (requires_auth permission f sample_config (sample_collaborators (Inl JWTError) d)
            [''Authorization'' \<mapsto> ''Bearer not-a-token''] args) = Inl JWTError"
    by (simp add: requires_auth_def t p except_AuthError_def)
  have h: "handle_user_exception JWTError
     = Some ([(''success'', JBool False), (''error'', JNum 500),
              (''message'', JStr ''Internal Server Error'')], 500)"
    by (simp add: handle_user_exception_def handle_500_def handle_error_def)
  show ?thesis
    using v r h by (intro conjI)
qed

subsection \<open>The order of the stages\<close>

lemma decode_with_key_trace:
  "decode_with_key cfg lib token rsa_key = (r, evs) \<Longrightarrow>
     evs = [] \<or> evs = [Call_decode token rsa_key]"
  by (auto simp add: decode_with_key_def split: option.splits)

lemma decode_with_key_payload_trace:
  "decode_with_key cfg lib token rsa_key = (Inr payload, evs) \<Longrightarrow>
     evs = [Call_decode token rsa_key]"
  by (auto simp add: decode_with_key_def split: option.splits)

lemma verify_decode_jwt_trace:
  "snd (verify_decode_jwt cfg lib token)
     = [Call_urlopen (''https://'' @ format_str (AUTH0_DOMAIN cfg) @ ''/.well-known/jwks.json'')]
   \<or> snd (verify_decode_jwt cfg lib token)
     = [Call_urlopen (''https://'' @ format_str (AUTH0_DOMAIN cfg) @ ''/.well-known/jwks.json''),
        Call_get_unverified_header token]
   \<or> (\<exists>rsa_key. snd (verify_decode_jwt cfg lib token)
          = [Call_urlopen (''https://'' @ format_str (AUTH0_DOMAIN cfg) @ ''/.well-known/jwks.json''),
             Call_get_unverified_header token, Call_decode token rsa_key])"
  using decode_with_key_trace [of cfg lib token]
  by (auto simp add: verify_decode_jwt_def Let_def split: sum.splits option.splits prod.splits)

lemma verify_decode_jwt_payload_trace:
  assumes "fst (verify_decode_jwt cfg lib token) = Inr payload"
  shows "\<exists>rsa_key. snd (verify_decode_jwt cfg lib token)
          = [Call_urlopen (''https://'' @ format_str (AUTH0_DOMAIN cfg) @ ''/.well-known/jwks.json''),
             Call_get_unverified_header token, Call_decode token rsa_key]"
  using assms
  apply (auto simp add: verify_decode_jwt_def Let_def
      split: sum.splits option.splits prod.splits if_splits)
  apply (drule decode_with_key_payload_trace)
  apply simp
  done

text \<open>
  \<^verbatim>\<open>jwt.decode\<close> is only called on the token given, with the key that the loop found
  in the fetched key set for the \<^verbatim>\<open>kid\<close> of the token's header.
\<close>

lemma verify_decode_jwt_decode_resolved:
  assumes "Call_decode token' rsa_key \<in> set (snd (verify_decode_jwt cfg lib token))"
  shows "token' = token
     \<and> (\<exists>jwks unverified_header kid ks keys.
           fetch_jwks lib (''https://'' @ format_str (AUTH0_DOMAIN cfg) @ ''/.well-known/jwks.json'')
             = Inr jwks
         \<and> get_unverified_header lib token = Inr unverified_header
         \<and> map_of unverified_header ''kid'' = Some kid
         \<and> getitem jwks ''keys'' = Inr ks
         \<and> iter ks = Inr keys
         \<and> find_rsa_key keys kid [] = Inr rsa_key
         \<and> rsa_key \<noteq> [])"
proof -
  let ?url = "''https://'' @ format_str (AUTH0_DOMAIN cfg) @ ''/.well-known/jwks.json''"
  obtain jwks where jwks: "fetch_jwks lib ?url = Inr jwks"
    using assms by (cases "fetch_jwks lib ?url") (simp_all add: verify_decode_jwt_def Let_def)
  obtain h where h: "get_unverified_header lib token = Inr h"
    using assms jwks
    by (cases "get_unverified_header lib token") (simp_all add: verify_decode_jwt_def Let_def)
  obtain kid where kid: "map_of h ''kid'' = Some kid"
    using assms jwks h
    by (cases "map_of h ''kid''") (simp_all add: verify_decode_jwt_def Let_def)
  obtain ks where ks: "getitem jwks ''keys'' = Inr ks"
    using assms jwks h kid
    by (cases "getitem jwks ''keys''") (simp_all add: verify_decode_jwt_def Let_def)
  obtain keys where keys: "iter ks = Inr keys"
    using assms jwks h kid ks
    by (cases "iter ks") (simp_all add: verify_decode_jwt_def Let_def)
  obtain rk where rk: "find_rsa_key keys kid [] = Inr rk"
    using assms jwks h kid ks keys
    by (cases "find_rsa_key keys kid []") (simp_all add: verify_decode_jwt_def Let_def)
  have ne: "rk \<noteq> []"
    using assms jwks h kid ks keys rk
    by (cases "rk = []") (simp_all add: verify_decode_jwt_def Let_def)
  obtain r evs where d: "decode_with_key cfg lib token rk = (r, evs)"
    by (cases "decode_with_key cfg lib token rk")
  have "Call_decode token' rsa_key \<in> set evs"
    using assms jwks h kid ks keys rk ne d
    by (simp add: verify_decode_jwt_def Let_def)
  then have "token' = token \<and> rsa_key = rk"
    using decode_with_key_trace [OF d] by auto
  then have "token' = token
     \<and> (fetch_jwks lib ?url = Inr jwks
         \<and> get_unverified_header lib token = Inr h
         \<and> map_of h ''kid'' = Some kid
         \<and> getitem jwks ''keys'' = Inr ks
         \<and> iter ks = Inr keys
         \<and> find_rsa_key keys kid [] = Inr rsa_key
         \<and> rsa_key \<noteq> [])"
    using jwks h kid ks keys rk ne by simp
  then show ?thesis
    by (intro conjI exI [of _ jwks] exI [of _ h] exI [of _ kid] exI [of _ ks] exI [of _ keys])
      simp_all
qed


lemma check_permissions_True: "check_permissions permission payload = Inr b \<Longrightarrow> b"
  by (auto simp add: check_permissions_def split: option.splits sum.splits bool.splits)

lemma requires_auth_trace_cases:
  "(\<exists>e. get_token_auth_header headers = Inl e
        \<and> snd (requires_auth permission f cfg lib headers args) = [Call_get_token_auth_header])
   \<or> (\<exists>token e. get_token_auth_header headers = Inr token
        \<and> fst (verify_decode_jwt cfg lib token) = Inl e
        \<and> snd (requires_auth permission f cfg lib headers args)
            = [Call_get_token_auth_header, Call_verify_decode_jwt token]
              @ snd (verify_decode_jwt cfg lib token))
   \<or> (\<exists>token payload e. get_token_auth_header headers = Inr token
        \<and> fst (verify_decode_jwt cfg lib token) = Inr payload
        \<and> check_permissions permission payload = Inl e
        \<and> snd (requires_auth permission f cfg lib headers args)
            = [Call_get_token_auth_header, Call_verify_decode_jwt token]
              @ snd (verify_decode_jwt cfg lib token)
              @ [Call_check_permissions permission payload])
   \<or> (\<exists>token payload. get_token_auth_header headers = Inr token
        \<and> fst (verify_decode_jwt cfg lib token) = Inr payload
        \<and> check_permissions permission payload = Inr True
        \<and> snd (requires_auth permission f cfg lib headers args)
            = [Call_get_token_auth_header, Call_verify_decode_jwt token]
              @ snd (verify_decode_jwt cfg lib token)
              @ [Call_check_permissions permission payload, Call_f])"
proof (cases "get_token_auth_header headers")
  case (Inl e)
  then show ?thesis
    by (simp add: requires_auth_def)
next
  case token: (Inr token)
  obtain r evs where v: "verify_decode_jwt cfg lib token = (r, evs)"
    by (cases "verify_decode_jwt cfg lib token")
  show ?thesis
  proof (cases r)
    case (Inl e)
    then show ?thesis
      using token v by (simp add: requires_auth_def)
  next
    case payload: (Inr payload)
    show ?thesis
    proof (cases "check_permissions permission payload")
      case (Inl e)
      then show ?thesis
        using token v payload by (simp add: requires_auth_def)
    next
      case (Inr b)
      then have "check_permissions permission payload = Inr True"
        using check_permissions_True [OF Inr] by simp
      then show ?thesis
        using token v payload by (simp add: requires_auth_def)
    qed
  qed
qed


lemma requires_auth_stages:
  "prefix (stages_of (snd (requires_auth permission f cfg lib headers args))) stages"
  using requires_auth_trace_cases [of headers permission f cfg lib args]
proof (elim disjE exE conjE)
  fix e
  assume "snd (requires_auth permission f cfg lib headers args) = [Call_get_token_auth_header]"
  then show ?thesis
    by (simp add: stages_of_def stages_def List.map_filter_simps)
next
  fix token e
  assume "snd (requires_auth permission f cfg lib headers args)
      = [Call_get_token_auth_header, Call_verify_decode_jwt token]
        @ snd (verify_decode_jwt cfg lib token)"
  then show ?thesis
    using verify_decode_jwt_trace [of cfg lib token]
    by (auto simp add: stages_of_def stages_def List.map_filter_simps)
next
  fix token payload e
  assume "fst (verify_decode_jwt cfg lib token) = Inr payload"
    and "snd (requires_auth permission f cfg lib headers args)
      = [Call_get_token_auth_header, Call_verify_decode_jwt token]
        @ snd (verify_decode_jwt cfg lib token)
        @ [Call_check_permissions permission payload]"
  then show ?thesis
    using verify_decode_jwt_payload_trace [of cfg lib token payload]
    by (auto simp add: stages_of_def stages_def List.map_filter_simps)
next
  fix token payload
  assume "fst (verify_decode_jwt cfg lib token) = Inr payload"
    and "snd (requires_auth permission f cfg lib headers args)
      = [Call_get_token_auth_header, Call_verify_decode_jwt token]
        @ snd (verify_decode_jwt cfg lib token)
        @ [Call_check_permissions permission payload, Call_f]"
  then show ?thesis
    using verify_decode_jwt_payload_trace [of cfg lib token payload]
    by (auto simp add: stages_of_def stages_def List.map_filter_simps)
qed

lemma requires_auth_calls_in_order:
  "\<exists>token rsa_key payload.
     prefix (snd (requires_auth permission f cfg lib headers args))
       [Call_get_token_auth_header, Call_verify_decode_jwt token,
        Call_urlopen (''https://'' @ format_str (AUTH0_DOMAIN cfg) @ ''/.well-known/jwks.json''),
        Call_get_unverified_header token, Call_decode token rsa_key,
        Call_check_permissions permission payload, Call_f]"
  using requires_auth_trace_cases [of headers permission f cfg lib args]
proof (elim disjE exE conjE)
  fix e
  assume "snd (requires_auth permission f cfg lib headers args) = [Call_get_token_auth_header]"
  then show ?thesis
    by simp
next
  fix token e
  assume "snd (requires_auth permission f cfg lib headers args)
      = [Call_get_token_auth_header, Call_verify_decode_jwt token]
        @ snd (verify_decode_jwt cfg lib token)"
  then show ?thesis
    using verify_decode_jwt_trace [of cfg lib token]
    by (intro exI [of _ token]) auto
next
  fix token payload e
  assume "fst (verify_decode_jwt cfg lib token) = Inr payload"
    and "snd (requires_auth permission f cfg lib headers args)
      = [Call_get_token_auth_header, Call_verify_decode_jwt token]
        @ snd (verify_decode_jwt cfg lib token)
        @ [Call_check_permissions permission payload]"
  then show ?thesis
    using verify_decode_jwt_payload_trace [of cfg lib token payload]
    by (intro exI [of _ token]) auto
next
  fix token payload
  assume "fst (verify_decode_jwt cfg lib token) = Inr payload"
    and "snd (requires_auth permission f cfg lib headers args)
      = [Call_get_token_auth_header, Call_verify_decode_jwt token]
        @ snd (verify_decode_jwt cfg lib token)
        @ [Call_check_permissions permission payload, Call_f]"
  then show ?thesis
    using verify_decode_jwt_payload_trace [of cfg lib token payload]
    by (intro exI [of _ token]) auto
qed


lemma verify_decode_jwt_events:
  "ev \<in> set (snd (verify_decode_jwt cfg lib token)) \<Longrightarrow>
     (\<exists>url. ev = Call_urlopen url) \<or> ev = Call_get_unverified_header token
     \<or> (\<exists>rsa_key. ev = Call_decode token rsa_key)"
  using verify_decode_jwt_trace [of cfg lib token] by auto

lemma requires_auth_decode_resolved:
  assumes "Call_decode token rsa_key \<in> set (snd (requires_auth permission f cfg lib headers args))"
  shows "get_token_auth_header headers = Inr token
     \<and> (\<exists>jwks unverified_header kid ks keys.
           fetch_jwks lib (''https://'' @ format_str (AUTH0_DOMAIN cfg) @ ''/.well-known/jwks.json'')
             = Inr jwks
         \<and> get_unverified_header lib token = Inr unverified_header
         \<and> map_of unverified_header ''kid'' = Some kid
         \<and> getitem jwks ''keys'' = Inr ks
         \<and> iter ks = Inr keys
         \<and> find_rsa_key keys kid [] = Inr rsa_key
         \<and> rsa_key \<noteq> [])"
proof -
  have "\<exists>t. get_token_auth_header headers = Inr t
      \<and> Call_decode token rsa_key \<in> set (snd (verify_decode_jwt cfg lib t))"
    using requires_auth_trace_cases [of headers permission f cfg lib args] assms
    by (elim disjE exE conjE) auto
  then obtain t where t: "get_token_auth_header headers = Inr t"
    and d: "Call_decode token rsa_key \<in> set (snd (verify_decode_jwt cfg lib t))"
    by (elim exE conjE)
  have "token = t"
    using verify_decode_jwt_decode_resolved [OF d] by simp
  then show ?thesis
    using t d verify_decode_jwt_decode_resolved [of token rsa_key cfg lib t] by simp
qed

lemma requires_auth_check_verified:
  assumes "Call_check_permissions p payload
      \<in> set (snd (requires_auth permission f cfg lib headers args))"
  shows "p = permission
     \<and> (\<exists>token. get_token_auth_header headers = Inr token
           \<and> fst (verify_decode_jwt cfg lib token) = Inr payload)"
  using requires_auth_trace_cases [of headers permission f cfg lib args] assms
  by (elim disjE exE conjE) (auto dest: verify_decode_jwt_events)

lemma requires_auth_operation_checked:
  assumes "Call_f \<in> set (snd (requires_auth permission f cfg lib headers args))"
  shows "\<exists>token payload. get_token_auth_header headers = Inr token
           \<and> fst (verify_decode_jwt cfg lib token) = Inr payload
           \<and> check_permissions permission payload = Inr True"
  using requires_auth_trace_cases [of headers permission f cfg lib args] assms
  by (elim disjE exE conjE) (auto dest: verify_decode_jwt_events)

text \<open>
  C7. In every execution of the wrapper the calls are an initial part of the sequence
  extraction, entering \<^verbatim>\<open>verify_decode_jwt\<close>, fetching the key set, reading the token's
  header, \<^verbatim>\<open>jwt.decode\<close>, \<^verbatim>\<open>check_permissions\<close>, the operation; so the stages that
  occur are an initial part of extraction, key resolution, verification, permission
  check, operation: none is skipped, none comes twice, none out of order.
  \<^verbatim>\<open>jwt.decode\<close> is only called on the token that extraction returned, with the key the
  loop found in the fetched key set for that token's \<^verbatim>\<open>kid\<close>. \<^verbatim>\<open>check_permissions\<close> is
  only called with the wrapper's permission on the payload that \<^verbatim>\<open>verify_decode_jwt\<close>
  returned for that token, and the operation only after that check returned \<^verbatim>\<open>True\<close>.
\<close>

theorem stages_in_order:
  "prefix (stages_of (snd (requires_auth permission f cfg lib headers args))) stages
   \<and> (\<exists>token rsa_key payload.
         prefix (snd (requires_auth permission f cfg lib headers args))
           [Call_get_token_auth_header, Call_verify_decode_jwt token,
            Call_urlopen (''https://'' @ format_str (AUTH0_DOMAIN cfg) @ ''/.well-known/jwks.json''),
            Call_get_unverified_header token, Call_decode token rsa_key,
            Call_check_permissions permission payload, Call_f])
   \<and> (\<forall>token rsa_key.
         Call_decode token rsa_key \<in> set (snd (requires_auth permission f cfg lib headers args))
         \<longrightarrow> get_token_auth_header headers = Inr token
             \<and> (\<exists>jwks unverified_header kid ks keys.
                   fetch_jwks lib
                     (''https://'' @ format_str (AUTH0_DOMAIN cfg) @ ''/.well-known/jwks.json'')
                     = Inr jwks
                 \<and> get_unverified_header lib token = Inr unverified_header
                 \<and> map_of unverified_header ''kid'' = Some kid
                 \<and> getitem jwks ''keys'' = Inr ks
                 \<and> iter ks = Inr keys
                 \<and> find_rsa_key keys kid [] = Inr rsa_key
                 \<and> rsa_key \<noteq> []))
   \<and> (\<forall>p payload.
         Call_check_permissions p payload
           \<in> set (snd (requires_auth permission f cfg lib headers args))
         \<longrightarrow> p = permission
             \<and> (\<exists>token. get_token_auth_header headers = Inr token
                   \<and> fst (verify_decode_jwt cfg lib token) = Inr payload))
   \<and> (Call_f \<in> set (snd (requires_auth permission f cfg lib headers args))
        \<longrightarrow> (\<exists>token payload. get_token_auth_header headers = Inr token
               \<and> fst (verify_decode_jwt cfg lib token) = Inr payload
               \<and> check_permissions permission payload = Inr True))"
proof -
  have decode: "\<forall>token rsa_key.
         Call_decode token rsa_key \<in> set (snd (requires_auth permission f cfg lib headers args))
         \<longrightarrow> get_token_auth_header headers = Inr token
             \<and> (\<exists>jwks unverified_header kid ks keys.
                   fetch_jwks lib
                     (''https://'' @ format_str (AUTH0_DOMAIN cfg) @ ''/.well-known/jwks.json'')
                     = Inr jwks
                 \<and> get_unverified_header lib token = Inr unverified_header
                 \<and> map_of unverified_header ''kid'' = Some kid
                 \<and> getitem jwks ''keys'' = Inr ks
                 \<and> iter ks = Inr keys
                 \<and> find_rsa_key keys kid [] = Inr rsa_key
                 \<and> rsa_key \<noteq> [])"
    by (intro allI impI) (rule requires_auth_decode_resolved)
  have check: "\<forall>p payload.
         Call_check_permissions p payload
           \<in> set (snd (requires_auth permission f cfg lib headers args))
         \<longrightarrow> p = permission
             \<and> (\<exists>token. get_token_auth_header headers = Inr token
                   \<and> fst (verify_decode_jwt cfg lib token) = Inr payload)"
    by (intro allI impI) (rule requires_auth_check_verified)
  have operation: "Call_f \<in> set (snd (requires_auth permission f cfg lib headers args))
        \<longrightarrow> (\<exists>token payload. get_token_auth_header headers = Inr token
               \<and> fst (verify_decode_jwt cfg lib token) = Inr payload
               \<and> check_permissions permission payload = Inr True)"
    by (intro impI) (rule requires_auth_operation_checked)
  show ?thesis
    by (intro conjI)
      (rule requires_auth_stages, rule requires_auth_calls_in_order, rule decode, rule check,
        rule operation)
qed

lemma bearer_headers_token:
  "get_token_auth_header bearer_headers = Inr ''header.payload.signature''"
  by (simp add: bearer_headers_def get_token_auth_header_def lower_Bearer)

lemma sample_verify:
  "verify_decode_jwt sample_config (sample_collaborators (Inr header_K1) d)
     ''header.payload.signature''
   = (case d of
        Inr payload \<Rightarrow> Inr payload
      | Inl ExpiredSignatureError \<Rightarrow> Inl (Raise_AuthError token_expired)
      | Inl JWTClaimsError \<Rightarrow> Inl (Raise_AuthError invalid_claims)
      | Inl _ \<Rightarrow> Inl (Raise_AuthError unable_to_parse),
      [Call_urlopen ''https://tenant.example/.well-known/jwks.json'',
       Call_get_unverified_header ''header.payload.signature'',
       Call_decode ''header.payload.signature'' rsa_key_K1])"
proof -
  have kid: "map_of header_K1 ''kid'' = Some (JStr ''K1'')"
    by (simp add: header_K1_def)
  have ne: "rsa_key_K1 \<noteq> []"
    by (simp add: rsa_key_K1_def)
  show ?thesis
    by (simp add: verify_decode_jwt_def Let_def sample_collaborators_def sample_config_def
        format_str_def sample_jwks_def kid sample_find_K1 ne decode_with_key_def
        del: find_rsa_key.simps)
qed

lemma manager_request:
  "requires_auth ''patch:drinks'' f sample_config
     (sample_collaborators (Inr header_K1) (Inr manager_payload)) bearer_headers args
   = (except_AuthError (f args),
      [Call_get_token_auth_header, Call_verify_decode_jwt ''header.payload.signature'',
       Call_urlopen ''https://tenant.example/.well-known/jwks.json'',
       Call_get_unverified_header ''header.payload.signature'',
       Call_decode ''header.payload.signature'' rsa_key_K1,
       Call_check_permissions ''patch:drinks'' manager_payload, Call_f])"
proof -
  have "check_permissions ''patch:drinks'' manager_payload = Inr True"
    by (simp add: check_permissions_def manager_payload_def)
  then show ?thesis
    by (simp add: requires_auth_def bearer_headers_token sample_verify)
qed

theorem stages_in_order_witness:
  "stages_of (snd (requires_auth ''patch:drinks'' (\<lambda>u :: unit. Inr () :: unit result)
        sample_config (sample_collaborators (Inr header_K1) (Inr manager_payload))
        bearer_headers ())) = stages
   \<and> prefix
     (stages_of (snd (requires_auth ''patch:drinks'' (\<lambda>u :: unit. Inr () :: unit result)
        sample_config (sample_collaborators (Inr header_K1) (Inr manager_payload))
        bearer_headers ())))
     stages
   \<and> (\<exists>jwks unverified_header kid ks keys.
         fetch_jwks (sample_collaborators (Inr header_K1) (Inr manager_payload))
           (''https://'' @ format_str (AUTH0_DOMAIN sample_config) @ ''/.well-known/jwks.json'')
           = Inr jwks
       \<and> get_unverified_header (sample_collaborators (Inr header_K1) (Inr manager_payload))
           ''header.payload.signature'' = Inr unverified_header
       \<and> map_of unverified_header ''kid'' = Some kid
       \<and> getitem jwks ''keys'' = Inr ks
       \<and> iter ks = Inr keys
       \<and> find_rsa_key keys kid [] = Inr rsa_key_K1
       \<and> rsa_key_K1 \<noteq> [])
   \<and> (\<exists>token. get_token_auth_header bearer_headers = Inr token
         \<and> fst (verify_decode_jwt sample_config
                  (sample_collaborators (Inr header_K1) (Inr manager_payload)) token)
             = Inr manager_payload)"
proof -
  let ?f = "\<lambda>u :: unit. Inr () :: unit result"
  let ?lib = "sample_collaborators (Inr header_K1) (Inr manager_payload)"
  note ordered = stages_in_order [of "''patch:drinks''" ?f sample_config ?lib bearer_headers "()"]
  have decoded: "Call_decode ''header.payload.signature'' rsa_key_K1
      \<in> set (snd (requires_auth ''patch:drinks'' ?f sample_config ?lib bearer_headers ()))"
    by (simp add: manager_request)
  have called: "Call_check_permissions ''patch:drinks'' manager_payload
      \<in> set (snd (requires_auth ''patch:drinks'' ?f sample_config ?lib bearer_headers ()))"
    by (simp add: manager_request)
  have 1: "stages_of (snd (requires_auth ''patch:drinks'' ?f sample_config ?lib
        bearer_headers ())) = stages"
    by (simp add: manager_request stages_of_def stages_def List.map_filter_simps)
  note 2 = ordered [THEN conjunct1]
  note 3 = ordered [THEN conjunct2, THEN conjunct2, THEN conjunct1, rule_format, OF decoded,
      THEN conjunct2]
  note 4 = ordered [THEN conjunct2, THEN conjunct2, THEN conjunct2, THEN conjunct1, rule_format,
      OF called, THEN conjunct2]
  show ?thesis
    by (intro conjI) (rule 1, rule 2, rule 3, rule 4)
qed

subsection \<open>Where the code departs from the claims\<close>

lemma barista_request:
  "requires_auth ''get:drinks-detail'' f sample_config
     (sample_collaborators (Inr header_K1) (Inr barista_payload)) bearer_headers args
   = (except_AuthError (f args),
      [Call_get_token_auth_header, Call_verify_decode_jwt ''header.payload.signature'',
       Call_urlopen ''https://tenant.example/.well-known/jwks.json'',
       Call_get_unverified_header ''header.payload.signature'',
       Call_decode ''header.payload.signature'' rsa_key_K1,
       Call_check_permissions ''get:drinks-detail'' barista_payload, Call_f])"
proof -
  have "check_permissions ''get:drinks-detail'' barista_payload = Inr True"
    by (simp add: check_permissions_def barista_payload_def)
  then show ?thesis
    by (simp add: requires_auth_def bearer_headers_token sample_verify)
qed

text \<open>
  C1 at a valid request. The operation is called once and its result is the wrapper's,
  but it is called as \<^verbatim>\<open>f(*args, **kwargs)\<close>: the decoded payload is not among its
  arguments, and two tokens with different payloads lead to the same call. The
  docstring of \<^verbatim>\<open>requires_auth\<close> asks for a decorator that passes the decoded payload to
  the decorated method.
\<close>

theorem operation_called_without_payload:
  "fst (requires_auth ''get:drinks-detail'' f sample_config
          (sample_collaborators (Inr header_K1) (Inr barista_payload)) bearer_headers args)
     = except_AuthError (f args)
   \<and> count_list (snd (requires_auth ''get:drinks-detail'' f sample_config
          (sample_collaborators (Inr header_K1) (Inr barista_payload)) bearer_headers args)) Call_f
     = 1
   \<and> fst (requires_auth ''patch:drinks'' f sample_config
          (sample_collaborators (Inr header_K1) (Inr manager_payload)) bearer_headers args)
     = except_AuthError (f args)
   \<and> barista_payload \<noteq> manager_payload"
proof -
  have "barista_payload \<noteq> manager_payload"
    by (simp add: barista_payload_def manager_payload_def)
  then show ?thesis
    by (simp add: barista_request manager_request)
qed

text \<open>
  C2 at a token whose header has no \<^verbatim>\<open>kid\<close>. The wrapper aborts with the error's
  status 401 and the operation is not called. \<^verbatim>\<open>abort\<close> raises werkzeug's exception
  with the \<^verbatim>\<open>AuthError\<close> as description, so the handler of 401 receives an object that
  is no \<^verbatim>\<open>AuthError\<close>, \<^verbatim>\<open>handle_error\<close> takes its second branch, and the message of
  the response is the default \<^verbatim>\<open>Unauthorized\<close>, not the error's description
  \<^verbatim>\<open>Authorization malformed.\<close>
\<close>

theorem description_replaced_by_default:
  "fst (requires_auth ''get:drinks-detail'' f sample_config
          (sample_collaborators (Inr header_without_kid) d) bearer_headers args)
     = Inl (HTTPException 401 (Some missing_kid))
   \<and> Call_f \<notin> set (snd (requires_auth ''get:drinks-detail'' f sample_config
          (sample_collaborators (Inr header_without_kid) d) bearer_headers args))
   \<and> handle_user_exception (HTTPException 401 (Some missing_kid))
     = Some ([(''success'', JBool False), (''error'', JNum 401),
              (''message'', JStr ''Unauthorized'')], 401)
   \<and> description (error missing_kid) = ''Authorization malformed.''"
proof -
  have v: "verify_decode_jwt sample_config (sample_collaborators (Inr header_without_kid) d)
      ''header.payload.signature''
    = (Inl (Raise_AuthError missing_kid),
       [Call_urlopen ''https://tenant.example/.well-known/jwks.json'',
        Call_get_unverified_header ''header.payload.signature''])"
    by (simp add: verify_decode_jwt_def Let_def sample_collaborators_def sample_config_def
        format_str_def header_without_kid_def)
  have s: "status_code missing_kid = 401"
    by (simp add: missing_kid_def)
  have r: "requires_auth ''get:drinks-detail'' f sample_config
          (sample_collaborators (Inr header_without_kid) d) bearer_headers args
     = (Inl (HTTPException 401 (Some missing_kid)),
        [Call_get_token_auth_header, Call_verify_decode_jwt ''header.payload.signature'',
         Call_urlopen ''https://tenant.example/.well-known/jwks.json'',
         Call_get_unverified_header ''header.payload.signature''])"
    by (simp add: requires_auth_def bearer_headers_token v except_AuthError_def abort_def s)
  have h: "handle_user_exception (HTTPException 401 (Some missing_kid))
     = Some ([(''success'', JBool False), (''error'', JNum 401),
              (''message'', JStr ''Unauthorized'')], 401)"
    by (simp add: handle_user_exception_def errorhandler_def handle_401_def handle_error_def)
  have m: "description (error missing_kid) = ''Authorization malformed.''"
    by (simp add: missing_kid_def)
  show ?thesis
    using h m by (simp add: r)
qed

text \<open>
  C9 at the body \<^verbatim>\<open>{"title": "", "recipe": []}\<close> for the stored drink 1. The body
  passes the checks; the empty title keeps the stored title, but the empty recipe does
  not keep the stored recipe: \<^verbatim>\<open>json.dumps([])\<close> is the non-empty string \<^verbatim>\<open>[]\<close>, so
  \<^verbatim>\<open>json.dumps(body.get("recipe")) or drink.recipe\<close> never falls back.
\<close>

theorem empty_recipe_overwrites_stored:
  "update_drink (sample_persistence (JObj [(''title'', JStr ''''), (''recipe'', JArr [])])) 1
   = Inr (\<lparr>drink_id = 1, title = JStr ''Water'', recipe = ''[]''\<rparr>,
          ([(''success'', JBool True),
            (''drinks'', JArr [JObj [(''id'', JNum 1), (''title'', JStr ''Water''),
                                     (''recipe'', JStr ''[]'')]])], 200))
   \<and> recipe stored_drink = ''stored-recipe''"
  by (simp add: update_drink_def sample_persistence_def body_ok_def check_recipe_def
      check_title_def assign_and_update_def stored_drink_def Let_def)

end
